theory Spec2Isabelle
  imports Main "HOL-Library.Multiset"
begin

section \<open>Python values and text\<close>

text \<open>
  A Python \<open>str\<close> is modelled as a \<open>string\<close> whose characters are code points below 256.
  \<open>isspace\<close> is \<open>str.isspace\<close> on one such code point: tab, line feed, vertical tab,
  form feed, carriage return, the four separators 28..31, space, NEL (133) and
  no-break space (160).
\<close>

definition isspace :: "char \<Rightarrow> bool" where
  "isspace c = (of_char c \<in> {9, 10, 11, 12, 13, 28, 29, 30, 31, 32, 133, 160 :: nat})"

text \<open>\<open>s.strip()\<close>: leading and trailing whitespace removed.\<close>

definition strip :: "string \<Rightarrow> string" where
  "strip s = rev (dropWhile isspace (rev (dropWhile isspace s)))"

text \<open>\<open>s.startswith(p)\<close>.\<close>

definition startswith :: "string \<Rightarrow> string \<Rightarrow> bool" where
  "startswith s p = (take (length p) s = p)"

text \<open>\<open>sep.join(parts)\<close> on a list of strings.\<close>

fun join :: "string \<Rightarrow> string list \<Rightarrow> string" where
  "join sep [] = []"
| "join sep [x] = x"
| "join sep (x # y # ys) = x @ sep @ join sep (y # ys)"

text \<open>Decimal digits of a natural number, and \<open>str\<close> of a Python \<open>int\<close>.\<close>

function str_nat :: "nat \<Rightarrow> string" where
  "str_nat n = (if n < 10 then [''0123456789'' ! n]
                else str_nat (n div 10) @ [''0123456789'' ! (n mod 10)])"
  by pat_completeness auto
termination
  by (relation "measure id") auto

declare str_nat.simps [simp del]

definition str_int :: "int \<Rightarrow> string" where
  "str_int i = (if i < 0 then CHR ''-'' # str_nat (nat (- i)) else str_nat (nat i))"

text \<open>
  The scalar values a parsed JSON document holds: \<open>null\<close>, a boolean, an integer, a string,
  and a number with a fraction or an exponent. The last is kept as the text that \<open>str\<close>
  gives for it, which is all the program ever does with such a number.
\<close>

datatype pyval = PNone | PBool bool | PInt int | PStr string | PFloat string

fun py_str :: "pyval \<Rightarrow> string" where
  "py_str PNone = ''None''"
| "py_str (PBool b) = (if b then ''True'' else ''False'')"
| "py_str (PInt i) = str_int i"
| "py_str (PStr s) = s"
| "py_str (PFloat r) = r"

text \<open>The name of the type of a value, as an error message of the interpreter prints it.\<close>

fun type_name :: "pyval \<Rightarrow> string" where
  "type_name PNone = ''NoneType''"
| "type_name (PBool b) = ''bool''"
| "type_name (PInt i) = ''int''"
| "type_name (PStr s) = ''str''"
| "type_name (PFloat r) = ''float''"

text \<open>\<open>d.get(key, default)\<close> for a key that is absent (\<open>None\<close>) or holds a value.\<close>

definition get_or :: "'a option \<Rightarrow> 'a \<Rightarrow> 'a" where
  "get_or v d = (case v of None \<Rightarrow> d | Some x \<Rightarrow> x)"

text \<open>
  The exceptions of the model. An error of the operating system carries the path it is
  about, and so does the error of a file that does not decode; the others carry their
  message.
\<close>

datatype oserr = ENOENT | EISDIR | ENOTDIR | EEXIST

datatype pyexc =
    OSError oserr string
  | FileNotFoundError string
  | ValueError string
  | UnicodeDecodeError string
  | TypeError string
  | AttributeError string
  | OtherError string

section \<open>The world of a run\<close>

text \<open>
  The file system: a path names a file with its decoded text, a file whose bytes are
  not valid UTF-8, a directory, or nothing. A path is under a folder when it is the
  folder or starts with the folder and a slash.
\<close>

datatype node = File string | Undecodable | Dir

type_synonym filesystem = "string \<Rightarrow> node option"

definition path_exists :: "filesystem \<Rightarrow> string \<Rightarrow> bool" where
  "path_exists files p = (files p \<noteq> None)"

definition under :: "string \<Rightarrow> string \<Rightarrow> bool" where
  "under folder p = (p = folder \<or> startswith p (folder @ ''/''))"

text \<open>\<open>os.path.join(a, b)\<close> on POSIX paths.\<close>

definition path_join :: "string \<Rightarrow> string \<Rightarrow> string" where
  "path_join a b =
     (if startswith b ''/'' \<and> b \<noteq> [] then b
      else if a = [] \<or> last a = CHR ''/'' then a @ b
      else a @ ''/'' @ b)"

text \<open>
  A call of a logger is recorded with its level and, for each call site, the values it is
  given. \<open>Log_Rule\<close> is the line of dashes; \<open>Log_Traceback\<close> is the text of
  \<open>traceback.format_exc()\<close>; the run time of the two final lines is not kept.
\<close>

datatype level = DEBUG | INFO | WARNING | ERROR

datatype logmsg =
    Log_Rule
  | Log_Inputs nat nat nat
  | Log_Step1
  | Log_Processed nat
  | Log_BindingSites nat
  | Log_ExcelGenerated
  | Log_Step2_5
  | Log_NoGraph
  | Log_NetworkConstructed nat nat
  | Log_NetworkFailed pyexc
  | Log_NoOverlap
  | Log_OverlapFailed pyexc
  | Log_Step3
  | Log_SkippedEnrichment string
  | Log_Step4
  | Log_SkippedPPI string
  | Log_Step5
  | Log_SkippedDrugGene string
  | Log_Success nat nat nat
  | Log_PipelineFailed pyexc
  | Log_Traceback
  | Log_Started
  | Log_Loaded nat
  | Log_ReadFailed pyexc
  | Log_NoValidGenes
  | Log_Querying nat
  | Log_ApiError nat string
  | Log_RequestFailed pyexc
  | Log_NoData
  | Log_Extracted nat
  | Log_NoInteractions
  | Log_CsvSaved string
  | Log_CsvFailed pyexc
  | Log_BarSaved string
  | Log_Completed

text \<open>
  The calls of code that is not the program's own: the prediction pipeline and the
  other stage modules, pandas, requests, matplotlib.
\<close>

datatype call =
    Call_SecondPipeline "string list"
  | Call_process_all_circs
  | Call_find_strong_hits
  | Call_match_mirnas
  | Call_analyze_mrna_overlap
  | Call_create_comprehensive_excel
  | Call_construct_network
  | Call_extract_overlapping_genes
  | Call_enrichment_main string string
  | Call_PPI_Analysis string
  | Call_read_csv string
  | Call_requests_post string "pyval list"
  | Call_to_csv string
  | Call_savefig string

record world =
  fs :: filesystem
  logged :: "(level \<times> logmsg) list"
  calls :: "call list"

text \<open>
  A statement runs in a world and either raises or returns a value, in the world it
  leaves behind.
\<close>

type_synonym 'a prog = "world \<Rightarrow> (pyexc + 'a) \<times> world"

definition returns :: "'a \<Rightarrow> 'a prog" where
  "returns v w = (Inr v, w)"

definition raises :: "pyexc \<Rightarrow> 'a prog" where
  "raises e w = (Inl e, w)"

definition andthen :: "'a prog \<Rightarrow> ('a \<Rightarrow> 'b prog) \<Rightarrow> 'b prog" where
  "andthen m f w = (case m w of (Inl e, w') \<Rightarrow> (Inl e, w') | (Inr v, w') \<Rightarrow> f v w')"

definition seq :: "'a prog \<Rightarrow> 'b prog \<Rightarrow> 'b prog" where
  "seq m k = andthen m (\<lambda>_. k)"

text \<open>\<open>try: m except Exception as e: h\<close>.\<close>

definition try_except :: "'a prog \<Rightarrow> (pyexc \<Rightarrow> 'a prog) \<Rightarrow> 'a prog" where
  "try_except m h w = (case m w of (Inl e, w') \<Rightarrow> h e w' | (Inr v, w') \<Rightarrow> (Inr v, w'))"

definition emit :: "level \<Rightarrow> logmsg \<Rightarrow> unit prog" where
  "emit lvl msg w = (Inr (), w\<lparr>logged := logged w @ [(lvl, msg)]\<rparr>)"

text \<open>
  Code that is not the program's own acts on the file system: given the files it finds,
  it raises or returns a value, and leaves the files it leaves. Calling it records the
  call.
\<close>

type_synonym 'a ext = "filesystem \<Rightarrow> (pyexc + 'a) \<times> filesystem"

definition external :: "call \<Rightarrow> 'a ext \<Rightarrow> 'a prog" where
  "external c f w =
     (case f (fs w) of (res, files) \<Rightarrow> (res, w\<lparr>fs := files, calls := calls w @ [c]\<rparr>))"

definition if_do :: "bool \<Rightarrow> unit prog \<Rightarrow> unit prog" where
  "if_do b m = (if b then m else returns ())"

text \<open>\<open>shutil.rmtree(folder)\<close> and \<open>os.makedirs(folder, exist_ok=...)\<close>.\<close>

definition rmtree :: "string \<Rightarrow> unit prog" where
  "rmtree folder w =
     (case fs w folder of
        None \<Rightarrow> (Inl (OSError ENOENT folder), w)
      | Some (File s) \<Rightarrow> (Inl (OSError ENOTDIR folder), w)
      | Some Undecodable \<Rightarrow> (Inl (OSError ENOTDIR folder), w)
      | Some Dir \<Rightarrow> (Inr (), w\<lparr>fs := (\<lambda>p. if under folder p then None else fs w p)\<rparr>))"

definition makedirs :: "string \<Rightarrow> bool \<Rightarrow> unit prog" where
  "makedirs folder exist_ok w =
     (case fs w folder of
        None \<Rightarrow> (Inr (), w\<lparr>fs := (fs w)(folder \<mapsto> Dir)\<rparr>)
      | Some (File s) \<Rightarrow> (Inl (OSError EEXIST folder), w)
      | Some Undecodable \<Rightarrow> (Inl (OSError EEXIST folder), w)
      | Some Dir \<Rightarrow> if exist_ok then (Inr (), w) else (Inl (OSError EEXIST folder), w))"

section \<open>What the program is given from outside\<close>

text \<open>
  What \<open>analyze_mrna_overlap\<close> returns: \<open>None\<close>, or a frame that is empty or not.
\<close>

datatype overlap = No_Frame | Frame bool

text \<open>
  The frame \<open>pd.read_csv\<close> returns: its columns by name, a missing cell being \<open>PNone\<close>.
\<close>

type_synonym frame = "(string \<times> pyval list) list"

section \<open>Input validation\<close>

text \<open>
  Reading a file opened in text mode translates the line endings \<open>\r\n\<close> and \<open>\r\<close>
  to \<open>\n\<close>; iterating over the file yields its lines, each with its terminator.
\<close>

fun universal_newlines :: "string \<Rightarrow> string" where
  "universal_newlines [] = []"
| "universal_newlines [c] = [if c = CHR 0x0D then CHR 0x0A else c]"
| "universal_newlines (c # d # ds) =
     (if c = CHR 0x0D \<and> d = CHR 0x0A then CHR 0x0A # universal_newlines ds
      else (if c = CHR 0x0D then CHR 0x0A else c) # universal_newlines (d # ds))"

fun file_lines_from :: "string \<Rightarrow> string \<Rightarrow> string list" where
  "file_lines_from cur [] = (if cur = [] then [] else [cur])"
| "file_lines_from cur (c # cs) =
     (if c = CHR 0x0A then (cur @ [c]) # file_lines_from [] cs
      else file_lines_from (cur @ [c]) cs)"

definition file_lines :: "string \<Rightarrow> string list" where
  "file_lines s = file_lines_from [] (universal_newlines s)"

definition open_text :: "filesystem \<Rightarrow> string \<Rightarrow> pyexc + string list" where
  "open_text files file_path =
     (case files file_path of
        None \<Rightarrow> Inl (OSError ENOENT file_path)
      | Some Dir \<Rightarrow> Inl (OSError EISDIR file_path)
      | Some Undecodable \<Rightarrow> Inl (UnicodeDecodeError file_path)
      | Some (File s) \<Rightarrow> Inr (file_lines s))"

text \<open>
  \<open>expected_prefix and not line.startswith(expected_prefix)\<close>: a prefix that is \<open>None\<close>
  or the empty string is falsy, and then no line is checked.
\<close>

definition prefix_violated :: "string option \<Rightarrow> string \<Rightarrow> bool" where
  "prefix_violated expected_prefix line =
     (case expected_prefix of
        None \<Rightarrow> False
      | Some p \<Rightarrow> p \<noteq> [] \<and> \<not> startswith line p)"

definition invalid_id_message :: "string \<Rightarrow> string \<Rightarrow> string" where
  "invalid_id_message file_path line =
     ''Invalid ID format in '' @ file_path @ '': '' @ [CHR 0x27] @ line @ [CHR 0x27]"

text \<open>The loop over the lines: the first violating line raises.\<close>

fun check_lines :: "string \<Rightarrow> string option \<Rightarrow> string list \<Rightarrow> pyexc option" where
  "check_lines file_path expected_prefix [] = None"
| "check_lines file_path expected_prefix (line # rest) =
     (if prefix_violated expected_prefix line
      then Some (ValueError (invalid_id_message file_path line))
      else check_lines file_path expected_prefix rest)"

text \<open>\<open>[line.strip() for line in f if line.strip()]\<close>.\<close>

definition nonblank_stripped :: "string list \<Rightarrow> string list" where
  "nonblank_stripped f = map strip (filter (\<lambda>line. strip line \<noteq> []) f)"

definition validate_input_format :: "string \<Rightarrow> string option \<Rightarrow> string list prog" where
  "validate_input_format file_path expected_prefix w =
     (case open_text (fs w) file_path of
        Inl e \<Rightarrow> (Inl e, w)
      | Inr f \<Rightarrow>
          (let lines = nonblank_stripped f in
           case check_lines file_path expected_prefix lines of
             Some e \<Rightarrow> (Inl e, w)
           | None \<Rightarrow> (Inr lines, w)))"

section \<open>The response of the drug-gene interaction service\<close>

text \<open>
  The GraphQL query asks, for every gene, for \<open>name\<close> and \<open>interactions\<close>, and for every
  interaction for \<open>drug { name conceptId }\<close>, \<open>interactionScore\<close>,
  \<open>interactionTypes { type directionality }\<close>, \<open>interactionAttributes { name value }\<close>,
  \<open>publications { pmid }\<close> and \<open>sources { sourceDbName }\<close>. The parsed response is
  modelled at that shape. A key with a scalar value is absent (\<open>None\<close>) or holds a
  \<open>pyval\<close> (\<open>Some PNone\<close> is JSON \<open>null\<close>); a key with an object or a list is absent,
  \<open>null\<close>, or holds it.
\<close>

datatype 'a field = Absent | Null | Val 'a

record interaction_type =
  it_type :: "pyval option"
  it_directionality :: "pyval option"

record interaction_attribute =
  ia_name :: "pyval option"
  ia_value :: "pyval option"

record publication =
  pub_pmid :: "pyval option"

record source =
  src_sourceDbName :: "pyval option"

record drug =
  drug_name :: "pyval option"
  drug_conceptId :: "pyval option"

record interaction =
  int_drug :: "drug field"
  int_interactionScore :: "pyval option"
  int_interactionTypes :: "interaction_type list field"
  int_interactionAttributes :: "interaction_attribute list field"
  int_publications :: "publication list field"
  int_sources :: "source list field"

record gene_node =
  node_name :: "pyval option"
  node_interactions :: "interaction list field"

section \<open>Flattening the response\<close>

text \<open>One row of the flattened table; \<open>Interaction_Types\<close> is a string or \<open>None\<close>.\<close>

record row =
  Gene :: pyval
  Drug :: pyval
  Concept_ID :: pyval
  Score :: pyval
  Interaction_Types :: "string option"
  Interaction_Attributes :: string
  Publications_PMIDs :: string
  Sources :: string

text \<open>\<open>for x in d.get(key, [])\<close>: iterating over \<open>None\<close> raises.\<close>

definition iter_field :: "'a list field \<Rightarrow> pyexc + 'a list" where
  "iter_field f =
     (case f of
        Absent \<Rightarrow> Inr []
      | Null \<Rightarrow> Inl (TypeError (CHR 0x27 # ''NoneType'' @ CHR 0x27 # '' object is not iterable''))
      | Val xs \<Rightarrow> Inr xs)"

text \<open>\<open>inter.get("drug", {})\<close> followed by \<open>drug_info.get\<close>: \<open>None\<close> has no \<open>get\<close>.\<close>

definition drug_info_of :: "drug field \<Rightarrow> pyexc + drug" where
  "drug_info_of f =
     (case f of
        Absent \<Rightarrow> Inr \<lparr>drug_name = None, drug_conceptId = None\<rparr>
      | Null \<Rightarrow> Inl (AttributeError
                  (CHR 0x27 # ''NoneType'' @ CHR 0x27 # '' object has no attribute '' @
                   CHR 0x27 # ''get'' @ [CHR 0x27]))
      | Val d \<Rightarrow> Inr d)"

definition format_type :: "interaction_type \<Rightarrow> string" where
  "format_type t =
     py_str (get_or (it_type t) (PStr [])) @ '' ('' @
     py_str (get_or (it_directionality t) (PStr [])) @ '')''"

definition format_attribute :: "interaction_attribute \<Rightarrow> string" where
  "format_attribute a =
     py_str (get_or (ia_name a) (PStr [])) @ ''='' @ py_str (get_or (ia_value a) (PStr []))"

definition format_publication :: "publication \<Rightarrow> string" where
  "format_publication p = py_str (get_or (pub_pmid p) (PStr []))"

text \<open>
  \<open>"; ".join\<close> of the source names takes the values as they are: the first one that is
  not a string raises, with its position in the message.
\<close>

fun str_items :: "nat \<Rightarrow> pyval list \<Rightarrow> pyexc + string list" where
  "str_items i [] = Inr []"
| "str_items i (v # vs) =
     (case v of
        PStr s \<Rightarrow> (case str_items (Suc i) vs of Inl e \<Rightarrow> Inl e | Inr ss \<Rightarrow> Inr (s # ss))
      | _ \<Rightarrow> Inl (TypeError (''sequence item '' @ str_nat i @ '': expected str instance, '' @
                             type_name v @ '' found'')))"

definition join_sources :: "source list \<Rightarrow> pyexc + string" where
  "join_sources ss =
     (case str_items 0 (map (\<lambda>s. get_or (src_sourceDbName s) (PStr [])) ss) of
        Inl e \<Rightarrow> Inl e
      | Inr names \<Rightarrow> Inr (join ''; '' names))"

text \<open>\<open>x or None\<close> on a string: the empty string is falsy.\<close>

definition or_None :: "string \<Rightarrow> string option" where
  "or_None s = (if s = [] then None else Some s)"

text \<open>The dictionary appended for one interaction; its entries are evaluated in order.\<close>

definition extract_record :: "pyval \<Rightarrow> interaction \<Rightarrow> pyexc + row" where
  "extract_record gene intr =
     (case drug_info_of (int_drug intr) of Inl e \<Rightarrow> Inl e | Inr drug_info \<Rightarrow>
      case iter_field (int_interactionTypes intr) of Inl e \<Rightarrow> Inl e | Inr ts \<Rightarrow>
      case iter_field (int_interactionAttributes intr) of Inl e \<Rightarrow> Inl e | Inr attrs \<Rightarrow>
      case iter_field (int_publications intr) of Inl e \<Rightarrow> Inl e | Inr ps \<Rightarrow>
      case iter_field (int_sources intr) of Inl e \<Rightarrow> Inl e | Inr ss \<Rightarrow>
      case join_sources ss of Inl e \<Rightarrow> Inl e | Inr srcs \<Rightarrow>
        Inr \<lparr>Gene = gene,
             Drug = get_or (drug_name drug_info) (PStr []),
             Concept_ID = get_or (drug_conceptId drug_info) (PStr []),
             Score = get_or (int_interactionScore intr) (PInt 0),
             Interaction_Types = or_None (join ''; '' (map format_type ts)),
             Interaction_Attributes = join ''; '' (map format_attribute attrs),
             Publications_PMIDs = join ''; '' (map format_publication ps),
             Sources = srcs\<rparr>)"

text \<open>The inner loop, over the interactions of one gene.\<close>

fun extract_gene :: "pyval \<Rightarrow> interaction list \<Rightarrow> pyexc + row list" where
  "extract_gene gene [] = Inr []"
| "extract_gene gene (intr # rest) =
     (case extract_record gene intr of
        Inl e \<Rightarrow> Inl e
      | Inr r \<Rightarrow> (case extract_gene gene rest of Inl e \<Rightarrow> Inl e | Inr rs \<Rightarrow> Inr (r # rs)))"

text \<open>The outer loop, over the gene nodes; the result is the list \<open>records\<close>.\<close>

fun extract_records :: "gene_node list \<Rightarrow> pyexc + row list" where
  "extract_records [] = Inr []"
| "extract_records (item # rest) =
     (case iter_field (node_interactions item) of
        Inl e \<Rightarrow> Inl e
      | Inr inters \<Rightarrow>
          (case extract_gene (get_or (node_name item) (PStr [])) inters of
             Inl e \<Rightarrow> Inl e
           | Inr rs \<Rightarrow>
               (case extract_records rest of
                  Inl e \<Rightarrow> Inl e
                | Inr rss \<Rightarrow> Inr (rs @ rss))))"

section \<open>The table behind the stacked bar chart\<close>

text \<open>
  A column of a frame is a list of values, \<open>PNone\<close> being the missing value. Values are
  compared with HOL's equality, which is Python's on strings and on \<open>None\<close>.
  \<open>unique\<close> keeps the first occurrence of every value, as \<open>Series.unique\<close> does;
  \<open>dropna\<close> drops the missing ones; \<open>nunique\<close> counts the distinct values that are
  not missing.
\<close>

definition unique :: "'a list \<Rightarrow> 'a list" where
  "unique xs = rev (remdups (rev xs))"

definition dropna :: "pyval list \<Rightarrow> pyval list" where
  "dropna vs = filter (\<lambda>v. v \<noteq> PNone) vs"

definition nunique :: "pyval list \<Rightarrow> nat" where
  "nunique vs = length (remdups (dropna vs))"

text \<open>\<open>fillna\<close> on a column that holds strings.\<close>

definition fillna :: "string option \<Rightarrow> string \<Rightarrow> string" where
  "fillna v d = (case v of None \<Rightarrow> d | Some s \<Rightarrow> s)"

text \<open>
  \<open>stacked_df\<close>, reduced to the three columns the function reads: \<open>Gene\<close>,
  \<open>Interaction_Types\<close> after \<open>fillna("Unknown")\<close>, and \<open>Drug\<close>.
\<close>

definition stacked_df :: "row list \<Rightarrow> (pyval \<times> string \<times> pyval) list" where
  "stacked_df df = map (\<lambda>r. (Gene r, fillna (Interaction_Types r) ''Unknown'', Drug r)) df"

text \<open>
  \<open>groupby(["Gene", "Interaction_Types"])["Drug"].nunique().reset_index()\<close>: one entry
  for every pair of keys that occurs; a row whose gene is missing belongs to no group.
\<close>

definition gene_interaction_counts ::
  "(pyval \<times> string \<times> pyval) list \<Rightarrow> ((pyval \<times> string) \<times> nat) list" where
  "gene_interaction_counts stacked =
     map (\<lambda>k. (k, nunique [d. (g, t, d) \<leftarrow> stacked, (g, t) = k]))
         (unique [(g, t). (g, t, d) \<leftarrow> stacked, g \<noteq> PNone])"

text \<open>
  The pivoted table: its index (the genes), its columns (the interaction types) and its
  cells; a cell with no entry reads 0, which is \<open>fillna(0)\<close>. The order in which pandas
  lists the index and the columns is not modelled: both are duplicate-free lists, here in
  order of first occurrence.
\<close>

record pivot =
  p_index :: "pyval list"
  p_columns :: "string list"
  p_cells :: "((pyval \<times> string) \<times> nat) list"

definition pivot_of :: "((pyval \<times> string) \<times> nat) list \<Rightarrow> pivot" where
  "pivot_of counts =
     \<lparr>p_index = unique (map (\<lambda>e. fst (fst e)) counts),
      p_columns = unique (map (\<lambda>e. snd (fst e)) counts),
      p_cells = counts\<rparr>"

definition cell :: "pivot \<Rightarrow> pyval \<Rightarrow> string \<Rightarrow> nat" where
  "cell p g t = (case map_of (p_cells p) (g, t) of None \<Rightarrow> 0 | Some c \<Rightarrow> c)"

text \<open>\<open>groupby("Gene")["Drug"].nunique()\<close>: the distinct drugs of every gene.\<close>

definition drugs_per_gene :: "(pyval \<times> string \<times> pyval) list \<Rightarrow> (pyval \<times> nat) list" where
  "drugs_per_gene stacked =
     map (\<lambda>k. (k, nunique [d. (g, t, d) \<leftarrow> stacked, g = k]))
         (unique [g. (g, t, d) \<leftarrow> stacked, g \<noteq> PNone])"

text \<open>
  \<open>.sort_values(ascending=False).head(n).index\<close>. The sort is pandas' own and is taken
  as given (\<open>sort_values\<close>): which of several genes with equal counts comes first is its
  choice.
\<close>

definition top_genes ::
  "((pyval \<times> nat) list \<Rightarrow> (pyval \<times> nat) list) \<Rightarrow> nat \<Rightarrow>
   (pyval \<times> string \<times> pyval) list \<Rightarrow> pyval list" where
  "top_genes sort_values n stacked = map fst (take n (sort_values (drugs_per_gene stacked)))"

text \<open>\<open>pivot_df.loc[pivot_df.index.intersection(top_genes)]\<close>.\<close>

definition restrict_rows :: "pivot \<Rightarrow> pyval list \<Rightarrow> pivot" where
  "restrict_rows p keep =
     \<lparr>p_index = filter (\<lambda>g. g \<in> set keep) (p_index p),
      p_columns = p_columns p,
      p_cells = filter (\<lambda>e. fst (fst e) \<in> set keep) (p_cells p)\<rparr>"

definition TOP_GENES :: nat where
  "TOP_GENES = 15"

text \<open>The table that \<open>draw_stacked_bar\<close> plots, for \<open>n\<close> top genes.\<close>

definition bar_table ::
  "((pyval \<times> nat) list \<Rightarrow> (pyval \<times> nat) list) \<Rightarrow> nat \<Rightarrow> row list \<Rightarrow> pivot" where
  "bar_table sort_values n df =
     (let stacked = stacked_df df;
          pivot_df = pivot_of (gene_interaction_counts stacked)
      in restrict_rows pivot_df (top_genes sort_values n stacked))"

section \<open>The code the program calls\<close>

text \<open>
  The reply to \<open>requests.post\<close>: the status code, the text, and what \<open>r.json()\<close> gives,
  which is an exception or the parsed document, read along the keys \<open>data\<close>, \<open>genes\<close>
  and \<open>nodes\<close>.
\<close>

record response =
  status_code :: nat
  text_of :: string
  json :: "pyexc + gene_node list field field field"

text \<open>
  The prediction pipeline, the enrichment and PPI modules, pandas, requests and
  matplotlib are not part of the program: each is a parameter, which may change the
  files and may raise. \<open>process_all_circs\<close> returns, for every circRNA, the
  length of its frame; \<open>construct_network\<close> returns \<open>None\<close> or the numbers of nodes and
  edges of the graph; \<open>dirname\<close> is the directory of the script. \<open>infer_cell\<close> is
  the type inference of pandas when it builds a frame: \<open>infer_cell env column v\<close> is the
  cell it stores for the value \<open>v\<close> of a column whose values are \<open>column\<close> (an integer
  becomes a float, and \<open>None\<close> becomes NaN, in a column that has a float).
\<close>

record env =
  dirname :: string
  SecondPipeline :: "string list \<Rightarrow> unit ext"
  process_all_circs :: "(string \<times> nat) list ext"
  find_strong_hits :: "unit ext"
  match_mirnas :: "unit ext"
  analyze_mrna_overlap :: "overlap ext"
  create_comprehensive_excel :: "unit ext"
  construct_network :: "(nat \<times> nat) option ext"
  extract_overlapping_genes :: "string list option ext"
  enrichment_main :: "string \<Rightarrow> string \<Rightarrow> unit ext"
  PPI_Analysis :: "string \<Rightarrow> unit ext"
  read_csv :: "string \<Rightarrow> frame ext"
  requests_post :: "string \<Rightarrow> pyval list \<Rightarrow> response ext"
  to_csv :: "row list \<Rightarrow> string \<Rightarrow> unit ext"
  savefig :: "pivot \<Rightarrow> string \<Rightarrow> unit ext"
  sort_values :: "(pyval \<times> nat) list \<Rightarrow> (pyval \<times> nat) list"
  infer_cell :: "pyval list \<Rightarrow> pyval \<Rightarrow> pyval"

section \<open>The drug-gene stage\<close>

definition load_gene_names :: "env \<Rightarrow> string \<Rightarrow> pyval list prog" where
  "load_gene_names env file_path =
     try_except
       (andthen (external (Call_read_csv file_path) (read_csv env file_path)) (\<lambda>df.
          case map_of df ''Gene'' of
            None \<Rightarrow> raises (ValueError (''CSV is missing a '' @ CHR 0x27 # ''Gene'' @
                                         CHR 0x27 # '' column.''))
          | Some col \<Rightarrow>
              (let genes = unique (dropna col) in
               seq (emit INFO (Log_Loaded (length genes))) (returns genes))))
       (\<lambda>e. seq (emit ERROR (Log_ReadFailed e)) (returns []))"

text \<open>
  \<open>r.json().get("data", {}).get("genes", {}).get("nodes", [])\<close>: an absent key gives
  the default, \<open>null\<close> under \<open>data\<close> or \<open>genes\<close> has no \<open>get\<close>, and \<open>null\<close> under
  \<open>nodes\<close> is returned as \<open>None\<close>.
\<close>

definition no_get :: pyexc where
  "no_get = AttributeError (CHR 0x27 # ''NoneType'' @ CHR 0x27 # '' object has no attribute '' @
                            CHR 0x27 # ''get'' @ [CHR 0x27])"

definition nodes_of :: "pyexc + gene_node list field field field \<Rightarrow> gene_node list option prog" where
  "nodes_of body =
     (case body of
        Inl e \<Rightarrow> raises e
      | Inr Absent \<Rightarrow> returns (Some [])
      | Inr Null \<Rightarrow> raises no_get
      | Inr (Val Absent) \<Rightarrow> returns (Some [])
      | Inr (Val Null) \<Rightarrow> raises no_get
      | Inr (Val (Val Absent)) \<Rightarrow> returns (Some [])
      | Inr (Val (Val Null)) \<Rightarrow> returns None
      | Inr (Val (Val (Val nodes))) \<Rightarrow> returns (Some nodes))"

definition dgidb_url :: string where
  "dgidb_url = ''https://dgidb.org/api/graphql''"

text \<open>
  The request is recorded with the address and the gene names, from which the text of
  the query is built.
\<close>

definition query_dgidb :: "env \<Rightarrow> pyval list \<Rightarrow> gene_node list option prog" where
  "query_dgidb env genes =
     try_except
       (andthen (external (Call_requests_post dgidb_url genes) (requests_post env dgidb_url genes))
          (\<lambda>r. if status_code r \<noteq> 200
                then seq (emit ERROR (Log_ApiError (status_code r) (text_of r))) (returns (Some []))
                else nodes_of (json r)))
       (\<lambda>e. seq (emit ERROR (Log_RequestFailed e)) (returns (Some [])))"

text \<open>
  \<open>pd.DataFrame(records)\<close>: one row for every record, in order. The columns \<open>Gene\<close>,
  \<open>Drug\<close>, \<open>Concept_ID\<close> and \<open>Score\<close> hold the scalars of the response and go through
  the type inference; the four other columns hold strings and \<open>None\<close>, which a frame
  keeps.
\<close>

definition DataFrame :: "env \<Rightarrow> row list \<Rightarrow> row list" where
  "DataFrame env records =
     map (\<lambda>r. r\<lparr>Gene := infer_cell env (map Gene records) (Gene r),
                 Drug := infer_cell env (map Drug records) (Drug r),
                 Concept_ID := infer_cell env (map Concept_ID records) (Concept_ID r),
                 Score := infer_cell env (map Score records) (Score r)\<rparr>)
         records"

text \<open>\<open>extract_interactions\<close>: the records, as a frame, after logging their number.\<close>

definition extract_interactions :: "env \<Rightarrow> gene_node list \<Rightarrow> row list prog" where
  "extract_interactions env data =
     (case extract_records data of
        Inl e \<Rightarrow> raises e
      | Inr records \<Rightarrow>
          (let df = DataFrame env records in
           seq (emit INFO (Log_Extracted (length df))) (returns df)))"

definition export_full_csv :: "env \<Rightarrow> string \<Rightarrow> row list \<Rightarrow> unit prog" where
  "export_full_csv env OUTPUT_FULL_CSV df =
     try_except
       (seq (external (Call_to_csv OUTPUT_FULL_CSV) (to_csv env df OUTPUT_FULL_CSV))
            (emit INFO (Log_CsvSaved OUTPUT_FULL_CSV)))
       (\<lambda>e. emit ERROR (Log_CsvFailed e))"

definition draw_stacked_bar :: "env \<Rightarrow> string \<Rightarrow> row list \<Rightarrow> unit prog" where
  "draw_stacked_bar env OUTPUT_BAR df =
     (let pivot_df = bar_table (sort_values env) TOP_GENES df in
      seq (external (Call_savefig OUTPUT_BAR) (savefig env pivot_df OUTPUT_BAR))
          (emit INFO (Log_BarSaved OUTPUT_BAR)))"

text \<open>\<open>not data\<close>: \<open>None\<close> and the empty list are falsy.\<close>

definition falsy :: "'a list option \<Rightarrow> bool" where
  "falsy data = (case data of None \<Rightarrow> True | Some xs \<Rightarrow> xs = [])"

definition run_pipeline :: "env \<Rightarrow> string \<Rightarrow> string \<Rightarrow> string \<Rightarrow> unit prog" where
  "run_pipeline env INPUT_FILE OUTPUT_FULL_CSV OUTPUT_BAR =
     seq (emit INFO Log_Started)
    (andthen (load_gene_names env INPUT_FILE) (\<lambda>genes.
       if genes = [] then emit WARNING Log_NoValidGenes
       else
         seq (emit INFO (Log_Querying (length genes)))
        (andthen (query_dgidb env genes) (\<lambda>data.
           if falsy data then emit WARNING Log_NoData
           else
             andthen (extract_interactions env (case data of None \<Rightarrow> [] | Some nodes \<Rightarrow> nodes)) (\<lambda>df.
               if df = [] then emit WARNING Log_NoInteractions
               else
                 seq (export_full_csv env OUTPUT_FULL_CSV df)
                (seq (draw_stacked_bar env OUTPUT_BAR df)
                     (emit INFO Log_Completed)))))))"

text \<open>\<open>main(hub_genes_path, output_dir)\<close>, the entry the orchestrator calls.\<close>

definition main :: "env \<Rightarrow> string \<Rightarrow> string \<Rightarrow> unit prog" where
  "main env hub_genes_path output_dir =
     seq (makedirs output_dir True)
         (run_pipeline env hub_genes_path
            (path_join output_dir ''drug_gene_interactions.csv'')
            (path_join output_dir ''drug_gene_interaction_barplot.png''))"

section \<open>The orchestrator\<close>

definition model_files :: "string \<Rightarrow> string list" where
  "model_files here =
     [path_join (path_join here ''Model_Files'') ''calibrated_catboost_site_type_model.pkl'',
      path_join (path_join here ''Model_Files'') ''label_encoder.pkl'',
      path_join (path_join here ''Model_Files'') ''robust_scaler.pkl'']"

text \<open>The loop over the six required files: the first that is missing raises.\<close>

fun require_files :: "string list \<Rightarrow> unit prog" where
  "require_files [] w = (Inr (), w)"
| "require_files (f # rest) w =
     (if \<not> path_exists (fs w) f then (Inl (FileNotFoundError (''Missing file: '' @ f)), w)
      else require_files rest w)"

text \<open>
  The first lines of the \<open>try\<close> block: the three validations, the line that reports the
  sizes of the inputs, and the check of the required files.
\<close>

definition check_inputs :: "env \<Rightarrow> string \<Rightarrow> string \<Rightarrow> string \<Rightarrow> unit prog" where
  "check_inputs env circ_file mirna_file deg_file =
     andthen (validate_input_format circ_file (Some ''hsa_circ_'')) (\<lambda>circ_ids.
     andthen (validate_input_format mirna_file (Some ''hsa-miR'')) (\<lambda>mirna_ids.
     andthen (validate_input_format deg_file None) (\<lambda>deg_ids.
     seq (emit INFO (Log_Inputs (length circ_ids) (length mirna_ids) (length deg_ids)))
         (require_files ([circ_file, mirna_file, deg_file] @ model_files (dirname env))))))"

text \<open>The loop over \<open>temp\<close> and \<open>output\<close>: an existing folder is removed, then created.\<close>

definition reset_folder :: "string \<Rightarrow> unit prog" where
  "reset_folder folder w =
     (if path_exists (fs w) folder then seq (rmtree folder) (makedirs folder False) w
      else makedirs folder False w)"

definition reset_folders :: "unit prog" where
  "reset_folders = seq (reset_folder ''temp'') (reset_folder ''output'')"

text \<open>
  Step 1, the prediction, up to the overlap analysis; it returns the two totals of the
  summary and the overlap frame.
\<close>

definition prediction ::
  "env \<Rightarrow> string \<Rightarrow> string \<Rightarrow> string \<Rightarrow> (nat \<times> nat \<times> overlap) prog" where
  "prediction env circ_file mirna_file deg_file =
     seq (emit INFO Log_Rule)
    (seq (emit INFO Log_Step1)
    (seq (external
            (Call_SecondPipeline
               ([circ_file, mirna_file, deg_file] @ model_files (dirname env) @ [''temp'', ''output'']))
            (SecondPipeline env
               ([circ_file, mirna_file, deg_file] @ model_files (dirname env) @ [''temp'', ''output''])))
    (andthen (external Call_process_all_circs (process_all_circs env)) (\<lambda>results.
     seq (external Call_find_strong_hits (find_strong_hits env))
    (seq (external Call_match_mirnas (match_mirnas env))
    (seq (emit INFO (Log_Processed (length results)))
    (seq (emit INFO (Log_BindingSites (sum_list (map snd results))))
    (andthen (external Call_analyze_mrna_overlap (analyze_mrna_overlap env)) (\<lambda>overlap_df.
       returns (length results, sum_list (map snd results), overlap_df))))))))))"

text \<open>Step 2.5, the construction of the network, inside its own \<open>try\<close>.\<close>

definition network_stage :: "env \<Rightarrow> bool \<Rightarrow> unit prog" where
  "network_stage env debug =
     seq (emit INFO Log_Rule)
    (seq (emit INFO Log_Step2_5)
    (try_except
       (andthen (external Call_construct_network (construct_network env)) (\<lambda>G.
          case G of
            None \<Rightarrow> emit WARNING Log_NoGraph
          | Some (nodes, edges) \<Rightarrow> emit INFO (Log_NetworkConstructed nodes edges)))
       (\<lambda>e. seq (emit WARNING (Log_NetworkFailed e))
                 (if_do debug (emit DEBUG Log_Traceback)))))"

text \<open>\<open>if overlap_df is not None and not overlap_df.empty: ... else: ...\<close>.\<close>

definition report_overlap :: "env \<Rightarrow> bool \<Rightarrow> overlap \<Rightarrow> unit prog" where
  "report_overlap env debug overlap_df =
     (case overlap_df of
        Frame False \<Rightarrow>
          seq (external Call_create_comprehensive_excel (create_comprehensive_excel env))
         (seq (emit INFO Log_ExcelGenerated)
              (network_stage env debug))
      | _ \<Rightarrow> emit WARNING Log_NoOverlap)"

text \<open>The extraction of the overlapping genes, inside its own \<open>try\<close>; \<open>or []\<close>.\<close>

definition overlap_stage :: "env \<Rightarrow> bool \<Rightarrow> string list prog" where
  "overlap_stage env debug =
     try_except
       (andthen (external Call_extract_overlapping_genes (extract_overlapping_genes env)) (\<lambda>r.
          returns (case r of None \<Rightarrow> [] | Some genes \<Rightarrow> genes)))
       (\<lambda>e. seq (emit WARNING (Log_OverlapFailed e))
            (seq (if_do debug (emit DEBUG Log_Traceback))
                 (returns [])))"

definition overlapping_path :: string where
  "overlapping_path = path_join ''output'' ''overlapping_genes.csv''"

definition hub_genes_path :: string where
  "hub_genes_path = path_join ''output'' ''hub_genes.csv''"

text \<open>Steps 3, 4 and 5: each runs when its input file exists and is skipped otherwise.\<close>

definition enrichment_stage :: "env \<Rightarrow> unit prog" where
  "enrichment_stage env =
     seq (emit INFO Log_Rule)
    (seq (emit INFO Log_Step3)
         (\<lambda>w. if path_exists (fs w) overlapping_path
              then external
                     (Call_enrichment_main overlapping_path (path_join ''output'' ''enrichment_results''))
                     (enrichment_main env overlapping_path (path_join ''output'' ''enrichment_results'')) w
              else emit WARNING (Log_SkippedEnrichment overlapping_path) w))"

definition ppi_stage :: "env \<Rightarrow> unit prog" where
  "ppi_stage env =
     seq (emit INFO Log_Rule)
    (seq (emit INFO Log_Step4)
         (\<lambda>w. if path_exists (fs w) overlapping_path
              then external (Call_PPI_Analysis overlapping_path) (PPI_Analysis env overlapping_path) w
              else emit WARNING (Log_SkippedPPI overlapping_path) w))"

definition drug_gene_stage :: "env \<Rightarrow> unit prog" where
  "drug_gene_stage env =
     seq (emit INFO Log_Rule)
    (seq (emit INFO Log_Step5)
         (\<lambda>w. if path_exists (fs w) hub_genes_path
              then main env hub_genes_path ''output'' w
              else emit WARNING (Log_SkippedDrugGene hub_genes_path) w))"

definition summary :: "nat \<Rightarrow> nat \<Rightarrow> nat \<Rightarrow> unit prog" where
  "summary total_circs total_sites n_genes =
     seq (emit INFO Log_Rule) (emit INFO (Log_Success total_circs total_sites n_genes))"

text \<open>The body of the \<open>try\<close> block of \<open>run_analysis\<close>.\<close>

definition pipeline_body :: "env \<Rightarrow> string \<Rightarrow> string \<Rightarrow> string \<Rightarrow> bool \<Rightarrow> unit prog" where
  "pipeline_body env circ_file mirna_file deg_file debug =
     seq (check_inputs env circ_file mirna_file deg_file)
    (seq reset_folders
    (andthen (prediction env circ_file mirna_file deg_file) (\<lambda>(total_circs, total_sites, overlap_df).
     seq (report_overlap env debug overlap_df)
    (andthen (overlap_stage env debug) (\<lambda>genes.
     seq (enrichment_stage env)
    (seq (ppi_stage env)
    (seq (drug_gene_stage env)
         (summary total_circs total_sites (length genes)))))))))"

text \<open>
  \<open>run_analysis\<close>: the body, and the handler of the outer \<open>try\<close>, which logs the
  exception and leaves with \<open>sys.exit(1)\<close>. A run that returns ends with status 0.
\<close>

datatype outcome = Returned | SysExit nat

definition run_analysis ::
  "env \<Rightarrow> string \<Rightarrow> string \<Rightarrow> string \<Rightarrow> bool \<Rightarrow> world \<Rightarrow> outcome \<times> world" where
  "run_analysis env circ_file mirna_file deg_file debug w =
     (case pipeline_body env circ_file mirna_file deg_file debug w of
        (Inr u, w') \<Rightarrow> (Returned, w')
      | (Inl e, w') \<Rightarrow>
          (SysExit 1,
           snd (seq (emit ERROR (Log_PipelineFailed e))
                    (if_do debug (emit ERROR Log_Traceback)) w')))"

definition exit_status :: "outcome \<Rightarrow> nat" where
  "exit_status out = (case out of Returned \<Rightarrow> 0 | SysExit n \<Rightarrow> n)"

section \<open>Notions the properties are stated with\<close>

subsection \<open>The flattened table, as the specification describes it\<close>

text \<open>The entries of a list under a key: none when the key is absent.\<close>

definition entries :: "'a list field \<Rightarrow> 'a list" where
  "entries f = (case f of Val xs \<Rightarrow> xs | _ \<Rightarrow> [])"

text \<open>The (gene, interaction) pairs of a response, in the order of the response.\<close>

definition pairs :: "gene_node list \<Rightarrow> (gene_node \<times> interaction) list" where
  "pairs data = concat (map (\<lambda>item. map (Pair item) (entries (node_interactions item))) data)"

definition drug_of :: "interaction \<Rightarrow> drug" where
  "drug_of intr =
     (case int_drug intr of Val d \<Rightarrow> d | _ \<Rightarrow> \<lparr>drug_name = None, drug_conceptId = None\<rparr>)"

text \<open>
  Strings in a row, each after the first preceded by a semicolon and a space.
\<close>

definition separated :: "string list \<Rightarrow> string" where
  "separated xs = (case xs of [] \<Rightarrow> [] | x # rest \<Rightarrow> x @ concat (map (\<lambda>y. ''; '' @ y) rest))"

text \<open>
  The string representation of the value under a key, empty when the key is absent, and
  the text of one entry of each sub-list: a type as \<open>type (directionality)\<close>, an
  attribute as \<open>name=value\<close>, a publication as its PMID, a source as its name.
\<close>

definition shown :: "pyval option \<Rightarrow> string" where
  "shown v = (case v of None \<Rightarrow> [] | Some x \<Rightarrow> py_str x)"

definition type_text :: "interaction_type \<Rightarrow> string" where
  "type_text t = shown (it_type t) @ '' ('' @ shown (it_directionality t) @ '')''"

definition attribute_text :: "interaction_attribute \<Rightarrow> string" where
  "attribute_text a = shown (ia_name a) @ ''='' @ shown (ia_value a)"

definition publication_text :: "publication \<Rightarrow> string" where
  "publication_text p = shown (pub_pmid p)"

definition source_text :: "source \<Rightarrow> string" where
  "source_text s = shown (src_sourceDbName s)"

text \<open>
  The record the specification asks for: the sub-lists joined with \<open>"; "\<close> in the order
  of the response, no interaction type giving \<open>None\<close>, no attribute, publication or
  source giving the empty string.
\<close>

definition flat_record :: "gene_node \<times> interaction \<Rightarrow> row" where
  "flat_record p =
     (case p of (item, intr) \<Rightarrow>
       \<lparr>Gene = (case node_name item of None \<Rightarrow> PStr [] | Some v \<Rightarrow> v),
        Drug = (case drug_name (drug_of intr) of None \<Rightarrow> PStr [] | Some v \<Rightarrow> v),
        Concept_ID = (case drug_conceptId (drug_of intr) of None \<Rightarrow> PStr [] | Some v \<Rightarrow> v),
        Score = (case int_interactionScore intr of None \<Rightarrow> PInt 0 | Some v \<Rightarrow> v),
        Interaction_Types =
          (case entries (int_interactionTypes intr) of
             [] \<Rightarrow> None
           | t # ts \<Rightarrow> Some (separated (map type_text (t # ts)))),
        Interaction_Attributes =
          separated (map attribute_text (entries (int_interactionAttributes intr))),
        Publications_PMIDs =
          separated (map publication_text (entries (int_publications intr))),
        Sources = separated (map source_text (entries (int_sources intr)))\<rparr>)"

text \<open>
  A response of the shape the query asks for: the drug and the lists of an interaction
  are present or absent, never \<open>null\<close>, and the names of the sources are strings.
\<close>

fun is_str :: "pyval \<Rightarrow> bool" where
  "is_str (PStr s) = True"
| "is_str v = False"

definition shaped_interaction :: "interaction \<Rightarrow> bool" where
  "shaped_interaction intr =
     (int_drug intr \<noteq> Null \<and> int_interactionTypes intr \<noteq> Null \<and>
      int_interactionAttributes intr \<noteq> Null \<and> int_publications intr \<noteq> Null \<and>
      int_sources intr \<noteq> Null \<and>
      list_all (\<lambda>s. case src_sourceDbName s of None \<Rightarrow> True | Some v \<Rightarrow> is_str v)
        (entries (int_sources intr)))"

definition well_shaped :: "gene_node list \<Rightarrow> bool" where
  "well_shaped data =
     list_all (\<lambda>item. node_interactions item \<noteq> Null \<and>
                      list_all shaped_interaction (entries (node_interactions item))) data"

subsection \<open>The checks that precede the stages\<close>

text \<open>
  The three input files pass validation and the six required files exist.
\<close>

definition inputs_valid :: "env \<Rightarrow> string \<Rightarrow> string \<Rightarrow> string \<Rightarrow> world \<Rightarrow> bool" where
  "inputs_valid env circ_file mirna_file deg_file w =
     (\<not> isl (fst (validate_input_format circ_file (Some ''hsa_circ_'') w)) \<and>
      \<not> isl (fst (validate_input_format mirna_file (Some ''hsa-miR'') w)) \<and>
      \<not> isl (fst (validate_input_format deg_file None w)) \<and>
      list_all (path_exists (fs w)) ([circ_file, mirna_file, deg_file] @ model_files (dirname env)))"

subsection \<open>The error of a table without the column\<close>

definition missing_gene_column :: pyexc where
  "missing_gene_column =
     ValueError (''CSV is missing a '' @ CHR 0x27 # ''Gene'' @ CHR 0x27 # '' column.'')"

subsection \<open>The run before the drug-gene stage\<close>

text \<open>
  The statements of the body that come before step 5, returning what the summary needs:
  the two totals and the number of overlapping genes.
\<close>

definition upstream ::
  "env \<Rightarrow> string \<Rightarrow> string \<Rightarrow> string \<Rightarrow> bool \<Rightarrow> (nat \<times> nat \<times> nat) prog" where
  "upstream env circ_file mirna_file deg_file debug =
     seq (check_inputs env circ_file mirna_file deg_file)
    (seq reset_folders
    (andthen (prediction env circ_file mirna_file deg_file) (\<lambda>(total_circs, total_sites, overlap_df).
     seq (report_overlap env debug overlap_df)
    (andthen (overlap_stage env debug) (\<lambda>genes.
     seq (enrichment_stage env)
    (seq (ppi_stage env)
         (returns (total_circs, total_sites, length genes))))))))"

subsection \<open>The run before each stage that has no handler of its own\<close>

text \<open>
  The statements of the body that come before the prediction, before step 3 and before
  step 4.
\<close>

definition before_prediction :: "env \<Rightarrow> string \<Rightarrow> string \<Rightarrow> string \<Rightarrow> unit prog" where
  "before_prediction env circ_file mirna_file deg_file =
     seq (check_inputs env circ_file mirna_file deg_file) reset_folders"

definition before_enrichment ::
  "env \<Rightarrow> string \<Rightarrow> string \<Rightarrow> string \<Rightarrow> bool \<Rightarrow> (nat \<times> nat \<times> nat) prog" where
  "before_enrichment env circ_file mirna_file deg_file debug =
     seq (before_prediction env circ_file mirna_file deg_file)
    (andthen (prediction env circ_file mirna_file deg_file) (\<lambda>(total_circs, total_sites, overlap_df).
     seq (report_overlap env debug overlap_df)
    (andthen (overlap_stage env debug) (\<lambda>genes.
       returns (total_circs, total_sites, length genes)))))"

definition before_ppi ::
  "env \<Rightarrow> string \<Rightarrow> string \<Rightarrow> string \<Rightarrow> bool \<Rightarrow> (nat \<times> nat \<times> nat) prog" where
  "before_ppi env circ_file mirna_file deg_file debug =
     andthen (before_enrichment env circ_file mirna_file deg_file debug)
       (\<lambda>totals. seq (enrichment_stage env) (returns totals))"

subsection \<open>The counts behind the chart, as the specification describes them\<close>

text \<open>
  The label of a record (\<open>Unknown\<close> when it has no interaction type), the genes of a
  table, the distinct drugs of a gene under a label, and the distinct drugs of a gene;
  a missing gene or drug is none. A sort is right when it returns a permutation of its
  input in descending order of the counts.
\<close>

definition type_label :: "row \<Rightarrow> string" where
  "type_label r = (case Interaction_Types r of None \<Rightarrow> ''Unknown'' | Some s \<Rightarrow> s)"

definition genes_of :: "row list \<Rightarrow> pyval set" where
  "genes_of df = Gene ` set df - {PNone}"

definition drugs_of :: "row list \<Rightarrow> pyval \<Rightarrow> string \<Rightarrow> pyval set" where
  "drugs_of df g t = Drug ` {r \<in> set df. Gene r = g \<and> type_label r = t} - {PNone}"

definition all_drugs_of :: "row list \<Rightarrow> pyval \<Rightarrow> pyval set" where
  "all_drugs_of df g = Drug ` {r \<in> set df. Gene r = g} - {PNone}"

definition sorts_descending :: "((pyval \<times> nat) list \<Rightarrow> (pyval \<times> nat) list) \<Rightarrow> bool" where
  "sorts_descending srt =
     (\<forall>xs. mset (srt xs) = mset xs \<and> sorted_wrt (\<lambda>a b. snd b \<le> snd a) (srt xs))"

section \<open>Example inputs\<close>


definition empty_world :: world where
  "empty_world = \<lparr>fs = Map.empty, logged = [], calls = []\<rparr>"

text \<open>
  A response whose first interaction has a list of types that is present and empty, and
  whose second has one type with neither name nor direction, with the rows it gives.
\<close>

definition empty_types_response :: "gene_node list" where
  "empty_types_response =
     [\<lparr>node_name = Some (PStr ''TP53''),
       node_interactions = Val
        [\<lparr>int_drug = Val \<lparr>drug_name = Some (PStr ''NUTLIN''), drug_conceptId = None\<rparr>,
          int_interactionScore = None,
          int_interactionTypes = Val [],
          int_interactionAttributes = Absent,
          int_publications = Absent,
          int_sources = Absent\<rparr>,
         \<lparr>int_drug = Val \<lparr>drug_name = Some (PStr ''ASPIRIN''), drug_conceptId = None\<rparr>,
          int_interactionScore = None,
          int_interactionTypes = Val [\<lparr>it_type = None, it_directionality = None\<rparr>],
          int_interactionAttributes = Absent,
          int_publications = Absent,
          int_sources = Absent\<rparr>]\<rparr>]"

definition empty_types_rows :: "row list" where
  "empty_types_rows =
     [\<lparr>Gene = PStr ''TP53'', Drug = PStr ''NUTLIN'', Concept_ID = PStr [],
       Score = PInt 0, Interaction_Types = None,
       Interaction_Attributes = [], Publications_PMIDs = [], Sources = []\<rparr>,
      \<lparr>Gene = PStr ''TP53'', Drug = PStr ''ASPIRIN'', Concept_ID = PStr [],
       Score = PInt 0, Interaction_Types = Some '' ()'',
       Interaction_Attributes = [], Publications_PMIDs = [], Sources = []\<rparr>]"

text \<open>
  Code from outside that returns a value, that raises, and that writes a file before it
  returns.
\<close>

definition ext_return :: "'a \<Rightarrow> 'a ext" where
  "ext_return v files = (Inr v, files)"

definition ext_raise :: "pyexc \<Rightarrow> 'a ext" where
  "ext_raise e files = (Inl e, files)"

definition ext_write :: "string \<Rightarrow> string \<Rightarrow> 'a \<Rightarrow> 'a ext" where
  "ext_write path content v files = (Inr v, files(path \<mapsto> File content))"

text \<open>
  A run in which every stage succeeds: one circRNA with two sites, an overlap, a network,
  two overlapping genes, a PPI stage that writes the hub genes, a hub-genes table that
  names \<open>TP53\<close> twice and has a missing cell, a table without a \<open>Gene\<close> column, and
  a drug-gene service that answers with status 500. The frames of the examples have
  columns of strings and columns of integers, whose cells a frame keeps as they are.
\<close>

definition sample_env :: env where
  "sample_env =
     \<lparr>dirname = ''app'',
      SecondPipeline = (\<lambda>args. ext_return ()),
      process_all_circs = ext_return [(''hsa_circ_0001'', 2)],
      find_strong_hits = ext_return (),
      match_mirnas = ext_return (),
      analyze_mrna_overlap = ext_return (Frame False),
      create_comprehensive_excel = ext_return (),
      construct_network = ext_return (Some (5, 4)),
      extract_overlapping_genes =
        ext_write ''output/overlapping_genes.csv'' ''Gene\<newline>TP53\<newline>EGFR\<newline>''
          (Some [''TP53'', ''EGFR'']),
      enrichment_main = (\<lambda>path dir. ext_return ()),
      PPI_Analysis = (\<lambda>path. ext_write ''output/hub_genes.csv'' ''Gene\<newline>TP53\<newline>'' ()),
      read_csv = (\<lambda>path.
        if path = ''output/hub_genes.csv''
        then ext_return [(''Gene'', [PStr ''TP53'', PNone, PStr ''EGFR'', PStr ''TP53''])]
        else if path = ''symbols.csv'' then ext_return [(''Symbol'', [PStr ''TP53''])]
        else ext_raise (OSError ENOENT path)),
      requests_post = (\<lambda>url genes.
        ext_return \<lparr>status_code = 500, text_of = ''Internal Server Error'',
                     json = Inl (ValueError ''Expecting value'')\<rparr>),
      to_csv = (\<lambda>df path. ext_write path ''csv'' ()),
      savefig = (\<lambda>table path. ext_write path ''png'' ()),
      sort_values = (\<lambda>counts. rev (sort_key snd counts)),
      infer_cell = (\<lambda>column v. v)\<rparr>"

definition sample_files :: filesystem where
  "sample_files =
     [''circ.txt'' \<mapsto> File ''hsa_circ_0001\<newline>\<newline>  hsa_circ_0002  \<newline>'',
      ''mirna.txt'' \<mapsto> File ''hsa-miR-21\<newline>'',
      ''deg.txt'' \<mapsto> File ''TP53\<newline>EGFR'',
      ''app/Model_Files/calibrated_catboost_site_type_model.pkl'' \<mapsto> File [],
      ''app/Model_Files/label_encoder.pkl'' \<mapsto> File [],
      ''app/Model_Files/robust_scaler.pkl'' \<mapsto> File [],
      ''output'' \<mapsto> Dir,
      ''output/old.csv'' \<mapsto> File ''x'']"

definition sample_world :: world where
  "sample_world = \<lparr>fs = sample_files, logged = [], calls = []\<rparr>"

text \<open>The same files, with a second line in the miRNA file that is not a miRNA.\<close>

definition bad_mirna_world :: world where
  "bad_mirna_world =
     \<lparr>fs = sample_files(''mirna.txt'' \<mapsto> File ''hsa-miR-21\<newline>mmu-let-7\<newline>''),
      logged = [], calls = []\<rparr>"

text \<open>The same files, without the scaler.\<close>

definition no_scaler_world :: world where
  "no_scaler_world =
     \<lparr>fs = sample_files(''app/Model_Files/robust_scaler.pkl'' := None),
      logged = [], calls = []\<rparr>"

text \<open>A run whose prediction raises in \<open>process_all_circs\<close>.\<close>

definition predict_fails_env :: env where
  "predict_fails_env = sample_env\<lparr>process_all_circs := ext_raise (OtherError ''prediction failed'')\<rparr>"

text \<open>
  A service that answers with one interaction whose only source has \<open>null\<close> for a name,
  and an environment in which every stage raises: the constructor of the pipeline, the
  network, the overlap, the enrichment and the PPI analysis by themselves, the drug-gene
  stage on that answer. \<open>staged_world\<close> has the files that steps 3, 4 and 5 look for.
\<close>

definition null_source_response :: "gene_node list" where
  "null_source_response =
     [\<lparr>node_name = Some (PStr ''TP53''),
       node_interactions = Val
        [\<lparr>int_drug = Val \<lparr>drug_name = Some (PStr ''NUTLIN''), drug_conceptId = None\<rparr>,
          int_interactionScore = None,
          int_interactionTypes = Val [],
          int_interactionAttributes = Val [],
          int_publications = Val [],
          int_sources = Val [\<lparr>src_sourceDbName = Some PNone\<rparr>]\<rparr>]\<rparr>]"

definition failing_env :: env where
  "failing_env =
     sample_env
       \<lparr>SecondPipeline := (\<lambda>args. ext_raise (OtherError ''cannot load the model'')),
        construct_network := ext_raise (OtherError ''no graph''),
        extract_overlapping_genes := ext_raise (OtherError ''no overlap table''),
        enrichment_main := (\<lambda>path dir. ext_raise (OtherError ''enrichment service down'')),
        PPI_Analysis := (\<lambda>path. ext_raise (OtherError ''PPI service down'')),
        requests_post := (\<lambda>url genes.
          ext_return \<lparr>status_code = 200, text_of = [],
                       json = Inr (Val (Val (Val null_source_response)))\<rparr>)\<rparr>"

definition staged_world :: world where
  "staged_world =
     \<lparr>fs = sample_files(''output/overlapping_genes.csv'' \<mapsto> File ''Gene\<newline>TP53\<newline>'',
                         ''output/hub_genes.csv'' \<mapsto> File ''Gene\<newline>TP53\<newline>''),
      logged = [], calls = []\<rparr>"

text \<open>The table that the sample response flattens to.\<close>

definition sample_table :: "row list" where
  "sample_table =
     [\<lparr>Gene = PStr ''TP53'', Drug = PStr ''ASPIRIN'', Concept_ID = PStr ''rxcui:1191'',
       Score = PInt 2,
       Interaction_Types = Some ''inhibitor (INHIBITORY); binder (None)'',
       Interaction_Attributes = ''approved=True; phase=3; route='',
       Publications_PMIDs = ''123; 45; 6'',
       Sources = ''ChEMBL; TTD; DTC''\<rparr>,
      \<lparr>Gene = PStr ''TP53'', Drug = PStr ''NUTLIN'', Concept_ID = PStr [],
       Score = PInt 0, Interaction_Types = None,
       Interaction_Attributes = [], Publications_PMIDs = [], Sources = []\<rparr>,
      \<lparr>Gene = PStr ''EGFR'', Drug = PStr ''ASPIRIN'', Concept_ID = PStr [],
       Score = PInt 0, Interaction_Types = None,
       Interaction_Attributes = [], Publications_PMIDs = [], Sources = []\<rparr>]"


section \<open>Properties of the flattening\<close>

lemma join_cons: "join sep (x # rest) = x @ concat (map (\<lambda>y. sep @ y) rest)"
  by (induction rest arbitrary: x) simp_all

lemma join_separated: "join ''; '' xs = separated xs"
proof (cases xs)
  case Nil
  then show ?thesis by (simp add: separated_def)
next
  case (Cons x rest)
  show ?thesis unfolding separated_def by (simp only: Cons join_cons list.case)
qed

lemma shown_get_or: "py_str (get_or v (PStr [])) = shown v"
  by (cases v) (simp_all add: get_or_def shown_def)

lemma format_type_text: "format_type = type_text"
  by (rule ext) (simp add: format_type_def type_text_def shown_get_or)

lemma format_attribute_text: "format_attribute = attribute_text"
  by (rule ext) (simp add: format_attribute_def attribute_text_def shown_get_or)

lemma format_publication_text: "format_publication = publication_text"
  by (rule ext) (simp add: format_publication_def publication_text_def shown_get_or)

lemma source_name_text: "(\<lambda>s. py_str (get_or (src_sourceDbName s) (PStr []))) = source_text"
  by (rule ext) (simp add: source_text_def shown_get_or)

lemma type_text_nonempty: "type_text t \<noteq> []"
  by (simp add: type_text_def)

lemma separated_types_nonempty: "separated (map type_text (t # ts)) \<noteq> []"
  by (simp add: separated_def type_text_nonempty)

lemma or_None_join_types:
  "or_None (join ''; '' (map format_type ts)) =
     (case ts of [] \<Rightarrow> None | t # ts' \<Rightarrow> Some (separated (map type_text (t # ts'))))"
proof (cases ts)
  case Nil
  then show ?thesis by (simp add: or_None_def)
next
  case (Cons t ts')
  have "join ''; '' (map format_type ts) = separated (map type_text ts)"
    by (simp only: join_separated format_type_text)
  with Cons show ?thesis using separated_types_nonempty [of t ts'] by (simp add: or_None_def)
qed

lemma str_items_all_str: "list_all is_str vs \<Longrightarrow> str_items i vs = Inr (map py_str vs)"
  by (induction vs arbitrary: i) (auto split: pyval.splits sum.splits elim: is_str.elims)

lemma str_items_Inr_all: "str_items i vs = Inr ss \<Longrightarrow> list_all is_str vs"
  by (induction vs arbitrary: i ss) (auto split: pyval.splits sum.splits)

lemma iter_field_entries: "f \<noteq> Null \<Longrightarrow> iter_field f = Inr (entries f)"
  by (cases f) (simp_all add: iter_field_def entries_def)

lemma iter_field_Inr: "iter_field f = Inr xs \<Longrightarrow> f \<noteq> Null \<and> xs = entries f"
  by (cases f) (simp_all add: iter_field_def entries_def)

lemma drug_info_of_drug_of:
  "int_drug intr \<noteq> Null \<Longrightarrow> drug_info_of (int_drug intr) = Inr (drug_of intr)"
  by (cases "int_drug intr") (simp_all add: drug_info_of_def drug_of_def)

lemma source_name_is_str:
  "is_str (get_or (src_sourceDbName s) (PStr [])) \<longleftrightarrow>
     (case src_sourceDbName s of None \<Rightarrow> True | Some v \<Rightarrow> is_str v)"
  by (cases "src_sourceDbName s") (simp_all add: get_or_def)

lemma source_names_are_str:
  "list_all is_str (map (\<lambda>s. get_or (src_sourceDbName s) (PStr [])) ss) \<longleftrightarrow>
     list_all (\<lambda>s. case src_sourceDbName s of None \<Rightarrow> True | Some v \<Rightarrow> is_str v) ss"
  by (induction ss) (simp_all add: source_name_is_str)

lemma join_sources_shaped:
  assumes "list_all (\<lambda>s. case src_sourceDbName s of None \<Rightarrow> True | Some v \<Rightarrow> is_str v) ss"
  shows "join_sources ss = Inr (separated (map source_text ss))"
proof -
  have "str_items 0 (map (\<lambda>s. get_or (src_sourceDbName s) (PStr [])) ss) =
          Inr (map py_str (map (\<lambda>s. get_or (src_sourceDbName s) (PStr [])) ss))"
    using assms by (intro str_items_all_str) (simp only: source_names_are_str)
  moreover have "map py_str (map (\<lambda>s. get_or (src_sourceDbName s) (PStr [])) ss) =
                   map (\<lambda>s. py_str (get_or (src_sourceDbName s) (PStr []))) ss"
    by simp
  ultimately have "str_items 0 (map (\<lambda>s. get_or (src_sourceDbName s) (PStr [])) ss) =
                     Inr (map source_text ss)"
    by (simp only: source_name_text)
  then show ?thesis by (simp add: join_sources_def join_separated del: join.simps)
qed

lemma extract_record_shaped:
  assumes "shaped_interaction intr"
  shows "extract_record (get_or (node_name item) (PStr [])) intr = Inr (flat_record (item, intr))"
proof -
  have a: "join ''; '' (map format_attribute xs) = separated (map attribute_text xs)" for xs
    by (simp only: join_separated format_attribute_text)
  have p: "join ''; '' (map format_publication xs) = separated (map publication_text xs)" for xs
    by (simp only: join_separated format_publication_text)
  show ?thesis
    using assms unfolding shaped_interaction_def extract_record_def flat_record_def
    by (simp add: iter_field_entries drug_info_of_drug_of join_sources_shaped or_None_join_types
        a p get_or_def del: join.simps)
qed

lemma extract_gene_shaped:
  "list_all shaped_interaction inters \<Longrightarrow>
   extract_gene (get_or (node_name item) (PStr [])) inters =
     Inr (map (\<lambda>i. flat_record (item, i)) inters)"
  by (induction inters) (simp_all add: extract_record_shaped)

lemma extract_records_shaped:
  "well_shaped data \<Longrightarrow> extract_records data = Inr (map flat_record (pairs data))"
  by (induction data)
     (simp_all add: well_shaped_def pairs_def iter_field_entries extract_gene_shaped comp_def)

lemma extract_record_Inr:
  assumes "extract_record g intr = Inr r"
  shows "shaped_interaction intr"
proof -
  from assms have n: "int_drug intr \<noteq> Null" "int_interactionTypes intr \<noteq> Null"
    "int_interactionAttributes intr \<noteq> Null" "int_publications intr \<noteq> Null"
    "int_sources intr \<noteq> Null"
    and j: "\<exists>srcs. join_sources (entries (int_sources intr)) = Inr srcs"
    unfolding extract_record_def
    by (auto simp: drug_info_of_def dest!: iter_field_Inr split: sum.splits field.splits)
  from j obtain ss where
    "str_items 0 (map (\<lambda>s. get_or (src_sourceDbName s) (PStr [])) (entries (int_sources intr))) =
       Inr ss"
    by (auto simp: join_sources_def split: sum.splits)
  then have "list_all is_str
               (map (\<lambda>s. get_or (src_sourceDbName s) (PStr [])) (entries (int_sources intr)))"
    by (rule str_items_Inr_all)
  then have "list_all (\<lambda>s. case src_sourceDbName s of None \<Rightarrow> True | Some v \<Rightarrow> is_str v)
               (entries (int_sources intr))"
    by (simp only: source_names_are_str)
  with n show ?thesis by (simp add: shaped_interaction_def)
qed

lemma extract_gene_Inr:
  "extract_gene g inters = Inr rs \<Longrightarrow> list_all shaped_interaction inters"
  by (induction inters arbitrary: rs) (auto split: sum.splits dest: extract_record_Inr)

lemma extract_records_Inr:
  "extract_records data = Inr rows \<Longrightarrow> well_shaped data"
  by (induction data arbitrary: rows)
     (auto simp: well_shaped_def split: sum.splits dest: extract_gene_Inr dest!: iter_field_Inr)

lemma extract_records_iff:
  "extract_records data = Inr rows \<longleftrightarrow> well_shaped data \<and> rows = map flat_record (pairs data)"
  using extract_records_Inr extract_records_shaped by fastforce


lemma length_DataFrame: "length (DataFrame env records) = length records"
  by (simp add: DataFrame_def)

lemma DataFrame_nth:
  assumes "k < length records"
  shows "Interaction_Types (DataFrame env records ! k) = Interaction_Types (records ! k)"
    and "Interaction_Attributes (DataFrame env records ! k) = Interaction_Attributes (records ! k)"
    and "Publications_PMIDs (DataFrame env records ! k) = Publications_PMIDs (records ! k)"
    and "Sources (DataFrame env records ! k) = Sources (records ! k)"
    and "Gene (DataFrame env records ! k) = infer_cell env (map Gene records) (Gene (records ! k))"
    and "Drug (DataFrame env records ! k) = infer_cell env (map Drug records) (Drug (records ! k))"
    and "Concept_ID (DataFrame env records ! k) =
           infer_cell env (map Concept_ID records) (Concept_ID (records ! k))"
    and "Score (DataFrame env records ! k) = infer_cell env (map Score records) (Score (records ! k))"
  using assms by (simp_all add: DataFrame_def)

lemma extract_interactions_Inr:
  "fst (extract_interactions env data w) = Inr rows \<longleftrightarrow>
     (\<exists>records. extract_records data = Inr records \<and> rows = DataFrame env records)"
  by (cases "extract_records data")
     (auto simp: extract_interactions_def raises_def seq_def andthen_def emit_def returns_def
        Let_def)



lemma flat_record_fields:
  "Interaction_Types (flat_record p) =
     (case entries (int_interactionTypes (snd p)) of
        [] \<Rightarrow> None
      | t # ts \<Rightarrow> Some (separated (map type_text (t # ts))))"
  "Interaction_Attributes (flat_record p) =
     separated (map attribute_text (entries (int_interactionAttributes (snd p))))"
  "Publications_PMIDs (flat_record p) =
     separated (map publication_text (entries (int_publications (snd p))))"
  "Sources (flat_record p) = separated (map source_text (entries (int_sources (snd p))))"
  by (cases p; simp add: flat_record_def)+

lemma flat_record_absent:
  "int_interactionTypes (snd p) = Absent \<Longrightarrow> Interaction_Types (flat_record p) = None"
  "int_interactionAttributes (snd p) = Absent \<Longrightarrow> Interaction_Attributes (flat_record p) = []"
  "int_publications (snd p) = Absent \<Longrightarrow> Publications_PMIDs (flat_record p) = []"
  "int_sources (snd p) = Absent \<Longrightarrow> Sources (flat_record p) = []"
  by (simp_all add: flat_record_fields entries_def separated_def)






lemma flat_record_types:
  "Interaction_Types (flat_record p) \<noteq> Some []"
proof (cases "entries (int_interactionTypes (snd p))")
  case Nil
  then show ?thesis by (simp add: flat_record_fields)
next
  case (Cons t ts)
  then show ?thesis using separated_types_nonempty [of t ts] by (simp add: flat_record_fields)
qed

lemma flat_record_empty_types:
  "int_interactionTypes (snd p) = Val [] \<Longrightarrow> Interaction_Types (flat_record p) = None"
  by (simp add: flat_record_fields entries_def)

lemma frame_types:
  assumes "fst (extract_interactions env data w) = Inr rows"
  shows "length rows = length (pairs data)"
    and "k < length rows \<Longrightarrow> Interaction_Types (rows ! k) = Interaction_Types (flat_record (pairs data ! k))"
proof -
  from assms have rows: "rows = DataFrame env (map flat_record (pairs data))"
    by (auto simp: extract_interactions_Inr extract_records_iff)
  show "length rows = length (pairs data)" by (simp add: rows length_DataFrame)
  assume "k < length rows"
  then have k: "k < length (map flat_record (pairs data))" by (simp add: rows length_DataFrame)
  show "Interaction_Types (rows ! k) = Interaction_Types (flat_record (pairs data ! k))"
    unfolding rows DataFrame_nth(1) [OF k] using k by simp
qed

text \<open>
  Claim C10. In every record that \<open>extract_interactions\<close> produces, the field
  \<open>Interaction_Types\<close> is \<open>None\<close> or a string that is not empty. It is \<open>None\<close> also
  when the list of interaction types is present and empty.
\<close>

theorem interaction_types_never_empty:
  assumes "fst (extract_interactions env data w) = Inr rows"
  shows "(\<forall>r\<in>set rows.
            Interaction_Types r = None \<or> (\<exists>s. Interaction_Types r = Some s \<and> s \<noteq> [])) \<and>
         length rows = length (pairs data) \<and>
         (\<forall>k<length rows.
            int_interactionTypes (snd (pairs data ! k)) = Val [] \<longrightarrow>
            Interaction_Types (rows ! k) = None)"
proof -
  note f = frame_types [OF assms]
  have "Interaction_Types r = None \<or> (\<exists>s. Interaction_Types r = Some s \<and> s \<noteq> [])"
    if "r \<in> set rows" for r
  proof -
    from that obtain k where k: "k < length rows" and r: "r = rows ! k"
      by (auto simp: in_set_conv_nth)
    have "Interaction_Types r = Interaction_Types (flat_record (pairs data ! k))"
      unfolding r using k by (rule f(2))
    then have "Interaction_Types r \<noteq> Some []" by (simp add: flat_record_types)
    then show ?thesis by (cases "Interaction_Types r") auto
  qed
  moreover have "length rows = length (pairs data)" by (rule f(1))
  moreover have "\<forall>k<length rows.
            int_interactionTypes (snd (pairs data ! k)) = Val [] \<longrightarrow>
            Interaction_Types (rows ! k) = None"
    by (simp add: f(2) flat_record_empty_types)
  ultimately show ?thesis by blast
qed

theorem interaction_types_never_empty_witness:
  "fst (extract_interactions sample_env empty_types_response empty_world) = Inr empty_types_rows \<and>
   int_interactionTypes (snd (pairs empty_types_response ! 0)) = Val [] \<and>
   Interaction_Types (empty_types_rows ! 0) = None \<and>
   Interaction_Types (empty_types_rows ! 1) \<noteq> Some []"
proof -
  have run: "fst (extract_interactions sample_env empty_types_response empty_world) =
               Inr empty_types_rows"
    by (simp add: extract_interactions_def DataFrame_def sample_env_def empty_types_response_def
        empty_types_rows_def iter_field_def extract_record_def drug_info_of_def join_sources_def
        or_None_def format_type_def get_or_def seq_def andthen_def emit_def returns_def Let_def)
  have p0: "int_interactionTypes (snd (pairs empty_types_response ! 0)) = Val []"
    by (simp add: pairs_def empty_types_response_def entries_def)
  have len: "0 < length empty_types_rows" "empty_types_rows ! 1 \<in> set empty_types_rows"
    by (simp_all add: empty_types_rows_def)
  note inst = interaction_types_never_empty [OF run]
  from inst len(1) p0 have "Interaction_Types (empty_types_rows ! 0) = None" by blast
  moreover from inst len(2) have "Interaction_Types (empty_types_rows ! 1) \<noteq> Some []" by fastforce
  ultimately show ?thesis using run p0 by simp
qed

section \<open>Properties of the input validation\<close>

lemma strip_eq_Nil: "strip s = [] \<longleftrightarrow> list_all isspace s"
proof -
  have a: "dropWhile isspace s = [] \<longleftrightarrow> (\<forall>x\<in>set s. isspace x)"
    by (rule dropWhile_eq_Nil_conv)
  have b: "strip s = [] \<longleftrightarrow> (\<forall>x\<in>set (dropWhile isspace s). isspace x)"
    unfolding strip_def by (simp add: dropWhile_eq_Nil_conv)
  have c: "(\<forall>x\<in>set (dropWhile isspace s). isspace x) \<longleftrightarrow> dropWhile isspace s = []"
  proof
    assume all: "\<forall>x\<in>set (dropWhile isspace s). isspace x"
    show "dropWhile isspace s = []"
    proof (rule ccontr)
      assume ne: "dropWhile isspace s \<noteq> []"
      then have "\<not> isspace (hd (dropWhile isspace s))" by (rule hd_dropWhile)
      moreover from ne have "hd (dropWhile isspace s) \<in> set (dropWhile isspace s)"
        by (rule hd_in_set)
      ultimately show False using all by blast
    qed
  next
    assume "dropWhile isspace s = []"
    then show "\<forall>x\<in>set (dropWhile isspace s). isspace x" by (metis empty_iff empty_set)
  qed
  from a b c show ?thesis unfolding list_all_iff by blast
qed

lemma strip_ends:
  assumes "strip s \<noteq> []"
  shows "\<not> isspace (hd (strip s))" and "\<not> isspace (last (strip s))"
proof -
  define t where "t = dropWhile isspace s"
  define u where "u = dropWhile isspace (rev t)"
  have s: "strip s = rev u" by (simp add: strip_def u_def t_def)
  with assms have u: "u \<noteq> []" by simp
  have t: "t \<noteq> []"
  proof
    assume "t = []"
    then have "u = []" by (simp add: u_def)
    with u show False by blast
  qed
  have hu: "\<not> isspace (hd u)" using u unfolding u_def by (rule hd_dropWhile)
  have ht: "\<not> isspace (hd t)" using t unfolding t_def by (rule hd_dropWhile)
  have "rev t = takeWhile isspace (rev t) @ u" by (simp add: u_def)
  then have "last (rev t) = last (takeWhile isspace (rev t) @ u)" by simp
  also have "\<dots> = last u" using u by (rule last_appendR)
  finally have "last u = last (rev t)" by simp
  also have "\<dots> = hd t" using t by (simp add: last_rev)
  finally have lu: "last u = hd t" .
  show "\<not> isspace (hd (strip s))" using u ht lu by (simp add: s hd_rev)
  show "\<not> isspace (last (strip s))" using u hu by (simp add: s last_rev)
qed

lemma nonblank_stripped_alt:
  "nonblank_stripped f = map strip (filter (\<lambda>l. \<not> list_all isspace l) f)"
  by (simp add: nonblank_stripped_def strip_eq_Nil)

lemma nonblank_stripped_ends:
  assumes "l \<in> set (nonblank_stripped f)"
  shows "l \<noteq> [] \<and> \<not> isspace (hd l) \<and> \<not> isspace (last l)"
proof -
  from assms obtain raw where "l = strip raw" "strip raw \<noteq> []"
    by (auto simp: nonblank_stripped_def)
  then show ?thesis using strip_ends by simp
qed

lemma concat_file_lines_from: "concat (file_lines_from cur s) = cur @ s"
  by (induction s arbitrary: cur) simp_all

lemma file_lines_from_shape:
  assumes "l \<in> set (file_lines_from cur s)" and "CHR 0x0A \<notin> set cur"
  shows "l \<noteq> [] \<and> CHR 0x0A \<notin> set (butlast l)"
  using assms
proof (induction s arbitrary: cur)
  case Nil
  then show ?case by (auto split: if_splits simp: butlast_append dest: in_set_butlastD)
next
  case (Cons c cs)
  show ?case
  proof (cases "c = CHR 0x0A")
    case True
    with Cons.prems have "l = cur @ [c] \<or> l \<in> set (file_lines_from [] cs)" by simp
    then show ?thesis
    proof
      assume "l = cur @ [c]"
      with Cons.prems(2) show ?thesis by simp
    next
      assume "l \<in> set (file_lines_from [] cs)"
      then show ?thesis using Cons.IH [of "[]"] by simp
    qed
  next
    case False
    with Cons.prems have "l \<in> set (file_lines_from (cur @ [c]) cs)" by simp
    moreover from False Cons.prems(2) have "CHR 0x0A \<notin> set (cur @ [c])" by auto
    ultimately show ?thesis using Cons.IH by blast
  qed
qed

lemma file_lines_partition: "concat (file_lines content) = universal_newlines content"
  by (simp add: file_lines_def concat_file_lines_from)

lemma file_lines_shape:
  "l \<in> set (file_lines content) \<Longrightarrow> l \<noteq> [] \<and> CHR 0x0A \<notin> set (butlast l)"
  unfolding file_lines_def using file_lines_from_shape [of l "[]"] by simp

lemma prefix_violated_Some: "prefix_violated (Some p) l \<longleftrightarrow> \<not> startswith l p"
  by (auto simp: prefix_violated_def startswith_def)

lemma check_lines_find:
  "check_lines file_path expected_prefix ls =
     map_option (\<lambda>bad. ValueError (invalid_id_message file_path bad))
       (find (prefix_violated expected_prefix) ls)"
  by (induction ls) simp_all

lemma validate_world: "snd (validate_input_format file_path expected_prefix w) = w"
  by (simp add: validate_input_format_def Let_def split: sum.splits option.splits)

lemma validate_on_file:
  assumes "fs w file_path = Some (File content)"
  shows "validate_input_format file_path expected_prefix w =
     (case find (prefix_violated expected_prefix) (nonblank_stripped (file_lines content)) of
        None \<Rightarrow> (Inr (nonblank_stripped (file_lines content)), w)
      | Some bad \<Rightarrow> (Inl (ValueError (invalid_id_message file_path bad)), w))"
  using assms
  by (simp add: validate_input_format_def open_text_def check_lines_find Let_def
      split: option.splits)

text \<open>
  Claim C4. When the file exists and, if a prefix is given, every non-blank line
  (stripped) starts with it, \<open>validate_input_format\<close> returns the non-blank lines of the
  file, each stripped of surrounding whitespace, in the order of the file, and leaves
  the world as it found it. The lines of the file are the pieces of its text (after the
  translation of line endings) that end at a line feed or at the end of the file; a line
  is blank when it consists of whitespace only.
\<close>

theorem validate_input_format_returns_lines:
  assumes "fs w file_path = Some (File content)"
      and "case expected_prefix of
             None \<Rightarrow> True
           | Some p \<Rightarrow> \<forall>line\<in>set (nonblank_stripped (file_lines content)). startswith line p"
  shows "validate_input_format file_path expected_prefix w =
           (Inr (nonblank_stripped (file_lines content)), w) \<and>
         nonblank_stripped (file_lines content) =
           map strip (filter (\<lambda>l. \<not> list_all isspace l) (file_lines content)) \<and>
         concat (file_lines content) = universal_newlines content \<and>
         (\<forall>l\<in>set (file_lines content). l \<noteq> [] \<and> CHR 0x0A \<notin> set (butlast l)) \<and>
         (\<forall>l\<in>set (nonblank_stripped (file_lines content)).
            l \<noteq> [] \<and> \<not> isspace (hd l) \<and> \<not> isspace (last l))"
proof -
  have "find (prefix_violated expected_prefix) (nonblank_stripped (file_lines content)) = None"
    using assms(2)
    by (cases expected_prefix) (auto simp: find_None_iff prefix_violated_def)
  then have "validate_input_format file_path expected_prefix w =
           (Inr (nonblank_stripped (file_lines content)), w)"
    using validate_on_file [OF assms(1)] by simp
  then show ?thesis
    using nonblank_stripped_alt file_lines_partition file_lines_shape nonblank_stripped_ends
    by blast
qed

lemma sample_circ_lines:
  "nonblank_stripped (file_lines ''hsa_circ_0001\<newline>\<newline>  hsa_circ_0002  \<newline>'') =
     [''hsa_circ_0001'', ''hsa_circ_0002'']"
  by (simp add: nonblank_stripped_def file_lines_def strip_def isspace_def)

theorem validate_input_format_returns_lines_witness:
  "fs sample_world ''circ.txt'' = Some (File ''hsa_circ_0001\<newline>\<newline>  hsa_circ_0002  \<newline>'') \<and>
   validate_input_format ''circ.txt'' (Some ''hsa_circ_'') sample_world =
     (Inr [''hsa_circ_0001'', ''hsa_circ_0002''], sample_world)"
proof -
  have f: "fs sample_world ''circ.txt'' =
             Some (File ''hsa_circ_0001\<newline>\<newline>  hsa_circ_0002  \<newline>'')"
    by (simp add: sample_world_def sample_files_def)
  have p: "case Some ''hsa_circ_'' of
             None \<Rightarrow> True
           | Some p \<Rightarrow> \<forall>line\<in>set (nonblank_stripped
                 (file_lines ''hsa_circ_0001\<newline>\<newline>  hsa_circ_0002  \<newline>'')). startswith line p"
    by (simp add: sample_circ_lines startswith_def)
  from validate_input_format_returns_lines [OF f p] f show ?thesis
    by (simp add: sample_circ_lines)
qed

section \<open>Properties of the orchestrator\<close>

lemma require_files_world: "snd (require_files ps w) = w"
  by (induction ps) simp_all

lemma require_files_ok:
  "fst (require_files ps w) = Inr () \<longleftrightarrow> list_all (path_exists (fs w)) ps"
  by (induction ps) simp_all

lemma require_files_result:
  "require_files ps w = (fst (require_files ps w), w)"
  by (metis prod.collapse require_files_world)

lemma validate_result:
  "validate_input_format file_path expected_prefix w =
     (fst (validate_input_format file_path expected_prefix w), w)"
  by (metis prod.collapse validate_world)

lemma check_inputs_world:
  "fs (snd (check_inputs env c m d w)) = fs w \<and> calls (snd (check_inputs env c m d w)) = calls w"
proof -
  obtain r1 where v1: "validate_input_format c (Some ''hsa_circ_'') w = (r1, w)"
    using validate_result by blast
  obtain r2 where v2: "validate_input_format m (Some ''hsa-miR'') w = (r2, w)"
    using validate_result by blast
  obtain r3 where v3: "validate_input_format d None w = (r3, w)"
    using validate_result by blast
  show ?thesis
    unfolding check_inputs_def andthen_def seq_def emit_def
    by (cases r1; cases r2; cases r3) (simp_all add: v1 v2 v3 require_files_world)
qed

lemma check_inputs_ok:
  "fst (check_inputs env c m d w) = Inr () \<longleftrightarrow> inputs_valid env c m d w"
proof -
  obtain r1 where v1: "validate_input_format c (Some ''hsa_circ_'') w = (r1, w)"
    using validate_result by blast
  obtain r2 where v2: "validate_input_format m (Some ''hsa-miR'') w = (r2, w)"
    using validate_result by blast
  obtain r3 where v3: "validate_input_format d None w = (r3, w)"
    using validate_result by blast
  show ?thesis
    unfolding check_inputs_def andthen_def seq_def emit_def inputs_valid_def
    by (cases r1; cases r2; cases r3)
       (simp_all add: v1 v2 v3 require_files_ok path_exists_def del: require_files.simps)
qed

lemma handler_world:
  "fs (snd (seq (emit ERROR (Log_PipelineFailed e)) (if_do debug (emit ERROR Log_Traceback)) w)) = fs w \<and>
   calls (snd (seq (emit ERROR (Log_PipelineFailed e)) (if_do debug (emit ERROR Log_Traceback)) w)) = calls w \<and>
   logged (snd (seq (emit ERROR (Log_PipelineFailed e)) (if_do debug (emit ERROR Log_Traceback)) w)) =
     logged w @ (ERROR, Log_PipelineFailed e) # (if debug then [(ERROR, Log_Traceback)] else [])"
  by (simp add: seq_def andthen_def emit_def if_do_def returns_def)

lemma run_analysis_raises:
  assumes "pipeline_body env c m d debug w = (Inl e, w')"
  shows "fst (run_analysis env c m d debug w) = SysExit 1 \<and>
         fs (snd (run_analysis env c m d debug w)) = fs w' \<and>
         calls (snd (run_analysis env c m d debug w)) = calls w' \<and>
         logged (snd (run_analysis env c m d debug w)) =
           logged w' @ (ERROR, Log_PipelineFailed e) # (if debug then [(ERROR, Log_Traceback)] else [])"
  using assms handler_world [of e debug w'] by (simp add: run_analysis_def)

lemma run_analysis_returns:
  assumes "pipeline_body env c m d debug w = (Inr u, w')"
  shows "run_analysis env c m d debug w = (Returned, w')"
  using assms by (simp add: run_analysis_def)

lemma pipeline_body_check_fails:
  assumes "fst (check_inputs env c m d w) = Inl e"
  shows "pipeline_body env c m d debug w = (Inl e, snd (check_inputs env c m d w))"
  using assms by (cases "check_inputs env c m d w") (simp add: pipeline_body_def seq_def andthen_def)

lemma run_analysis_invalid:
  assumes "\<not> inputs_valid env c m d w"
  shows "fst (run_analysis env c m d debug w) = SysExit 1 \<and>
         fs (snd (run_analysis env c m d debug w)) = fs w \<and>
         calls (snd (run_analysis env c m d debug w)) = calls w"
proof -
  from assms have "fst (check_inputs env c m d w) \<noteq> Inr ()" by (simp add: check_inputs_ok)
  then obtain e where "fst (check_inputs env c m d w) = Inl e"
    by (cases "fst (check_inputs env c m d w)") auto
  then have "pipeline_body env c m d debug w = (Inl e, snd (check_inputs env c m d w))"
    by (rule pipeline_body_check_fails)
  from run_analysis_raises [OF this] show ?thesis by (simp add: check_inputs_world)
qed

text \<open>
  Claim C9. The folders \<open>temp\<close> and \<open>output\<close> are removed and created again only after
  the three input files have passed validation and the six required files have been
  found. When a validation fails or a required file is missing, the run ends with exit
  status 1, and leaves the file system as it found it and calls no stage.
\<close>

theorem folders_reset_only_after_checks:
  "(\<not> inputs_valid env circ_file mirna_file deg_file w \<longrightarrow>
      fst (run_analysis env circ_file mirna_file deg_file debug w) = SysExit 1 \<and>
      fs (snd (run_analysis env circ_file mirna_file deg_file debug w)) = fs w \<and>
      calls (snd (run_analysis env circ_file mirna_file deg_file debug w)) = calls w) \<and>
   (fs (snd (run_analysis env circ_file mirna_file deg_file debug w)) \<noteq> fs w \<longrightarrow>
      inputs_valid env circ_file mirna_file deg_file w)"
  using run_analysis_invalid by blast

lemma no_scaler_invalid:
  "\<not> inputs_valid sample_env ''circ.txt'' ''mirna.txt'' ''deg.txt'' no_scaler_world"
  by (simp add: inputs_valid_def sample_env_def model_files_def path_join_def startswith_def
      path_exists_def no_scaler_world_def sample_files_def)

theorem folders_reset_only_after_checks_witness:
  "\<not> inputs_valid sample_env ''circ.txt'' ''mirna.txt'' ''deg.txt'' no_scaler_world \<and>
   fst (run_analysis sample_env ''circ.txt'' ''mirna.txt'' ''deg.txt'' False no_scaler_world) = SysExit 1 \<and>
   fs (snd (run_analysis sample_env ''circ.txt'' ''mirna.txt'' ''deg.txt'' False no_scaler_world))
      ''output/old.csv'' = Some (File ''x'') \<and>
   fs (snd (run_analysis sample_env ''circ.txt'' ''mirna.txt'' ''deg.txt'' False no_scaler_world))
      ''temp'' = None \<and>
   calls (snd (run_analysis sample_env ''circ.txt'' ''mirna.txt'' ''deg.txt'' False no_scaler_world)) = []"
proof -
  note inv = no_scaler_invalid
  have old: "fs no_scaler_world ''output/old.csv'' = Some (File ''x'')"
    "fs no_scaler_world ''temp'' = None" "calls no_scaler_world = []"
    by (simp_all add: no_scaler_world_def sample_files_def)
  from folders_reset_only_after_checks
         [of sample_env "''circ.txt''" "''mirna.txt''" "''deg.txt''" no_scaler_world False]
       inv old
  show ?thesis by simp
qed

lemma find_violation:
  assumes "line \<in> set ls" and "\<not> startswith line p"
  shows "\<exists>bad. find (\<lambda>l. \<not> startswith l p) ls = Some bad \<and> bad \<in> set ls \<and> \<not> startswith bad p"
proof (cases "find (\<lambda>l. \<not> startswith l p) ls")
  case None
  with assms show ?thesis by (auto simp: find_None_iff)
next
  case (Some bad)
  then show ?thesis by (auto simp: find_Some_iff)
qed

lemma prefix_violated_Some_fun: "prefix_violated (Some p) = (\<lambda>l. \<not> startswith l p)"
  by (rule ext) (rule prefix_violated_Some)

lemma validate_fails_on_violation:
  assumes "fs w file_path = Some (File content)"
      and "find (\<lambda>l. \<not> startswith l p) (nonblank_stripped (file_lines content)) = Some bad"
  shows "validate_input_format file_path (Some p) w =
           (Inl (ValueError (invalid_id_message file_path bad)), w)"
  using validate_on_file [OF assms(1), of "Some p"] assms(2)
  by (simp add: prefix_violated_Some_fun)

text \<open>
  Claim C3. When some non-blank line (stripped) of a file does not start with the
  required prefix, \<open>validate_input_format\<close> raises a \<open>ValueError\<close> whose message is
  \<open>Invalid ID format in\<close>, the path of the file, a colon, and between quotes the first
  such line of the file. When the file is the circRNA file or the miRNA file of a run,
  checked against its prefix, the run ends with exit status 1 after one \<open>[ERROR]\<close> line
  (and the stack trace under the debug flag), having called no stage and changed no
  file. The \<open>[ERROR]\<close> line carries that \<open>ValueError\<close> when the file is the circRNA
  file, and when it is the miRNA file and the circRNA file has passed.
\<close>

theorem invalid_line_aborts_run:
  assumes "fs w file_path = Some (File content)"
      and "line \<in> set (nonblank_stripped (file_lines content))"
      and "\<not> startswith line p"
  shows "\<exists>bad. find (\<lambda>l. \<not> startswith l p) (nonblank_stripped (file_lines content)) = Some bad \<and>
           bad \<in> set (nonblank_stripped (file_lines content)) \<and>
           take (length p) bad \<noteq> p \<and>
           validate_input_format file_path (Some p) w =
             (Inl (ValueError
                (''Invalid ID format in '' @ file_path @ '': '' @ [CHR 0x27] @ bad @ [CHR 0x27])), w) \<and>
           ((file_path = circ_file \<and> p = ''hsa_circ_'') \<or> (file_path = mirna_file \<and> p = ''hsa-miR'') \<longrightarrow>
              fst (run_analysis env circ_file mirna_file deg_file debug w) = SysExit 1 \<and>
              fs (snd (run_analysis env circ_file mirna_file deg_file debug w)) = fs w \<and>
              calls (snd (run_analysis env circ_file mirna_file deg_file debug w)) = calls w \<and>
              (\<exists>e. logged (snd (run_analysis env circ_file mirna_file deg_file debug w)) =
                     logged w @ (ERROR, Log_PipelineFailed e) #
                       (if debug then [(ERROR, Log_Traceback)] else []))) \<and>
           ((file_path = circ_file \<and> p = ''hsa_circ_'') \<or>
            (file_path = mirna_file \<and> p = ''hsa-miR'' \<and>
             (\<exists>ids. fst (validate_input_format circ_file (Some ''hsa_circ_'') w) = Inr ids)) \<longrightarrow>
              logged (snd (run_analysis env circ_file mirna_file deg_file debug w)) =
                logged w @
                (ERROR, Log_PipelineFailed (ValueError
                   (''Invalid ID format in '' @ file_path @ '': '' @ [CHR 0x27] @ bad @ [CHR 0x27]))) #
                (if debug then [(ERROR, Log_Traceback)] else []))"
proof -
  let ?run = "run_analysis env circ_file mirna_file deg_file debug w"
  from find_violation [OF assms(2,3)] obtain bad
    where bad: "find (\<lambda>l. \<not> startswith l p) (nonblank_stripped (file_lines content)) = Some bad"
      and mem: "bad \<in> set (nonblank_stripped (file_lines content))"
      and nsw: "\<not> startswith bad p"
    by (elim exE conjE)
  let ?e = "ValueError
              (''Invalid ID format in '' @ file_path @ '': '' @ [CHR 0x27] @ bad @ [CHR 0x27])"
  from nsw have tk: "take (length p) bad \<noteq> p" by (simp add: startswith_def)
  have v: "validate_input_format file_path (Some p) w = (Inl ?e, w)"
    using assms(1) bad by (rule validate_fails_on_violation [unfolded invalid_id_message_def])
  have run: "fst ?run = SysExit 1 \<and> fs (snd ?run) = fs w \<and> calls (snd ?run) = calls w \<and>
              (\<exists>e. logged (snd ?run) =
                     logged w @ (ERROR, Log_PipelineFailed e) #
                       (if debug then [(ERROR, Log_Traceback)] else []))"
    if which: "(file_path = circ_file \<and> p = ''hsa_circ_'') \<or> (file_path = mirna_file \<and> p = ''hsa-miR'')"
  proof -
    obtain r1 where v1: "validate_input_format circ_file (Some ''hsa_circ_'') w = (r1, w)"
      using validate_result by blast
    obtain r2 where v2: "validate_input_format mirna_file (Some ''hsa-miR'') w = (r2, w)"
      using validate_result by blast
    from which v v1 v2 have "isl r1 \<or> isl r2" by auto
    then obtain e where "check_inputs env circ_file mirna_file deg_file w = (Inl e, w)"
      unfolding check_inputs_def andthen_def seq_def
      by (cases r1; cases r2) (auto simp: v1 v2)
    then have "pipeline_body env circ_file mirna_file deg_file debug w = (Inl e, w)"
      by (simp add: pipeline_body_def seq_def andthen_def)
    from run_analysis_raises [OF this] show ?thesis by blast
  qed
  have named: "logged (snd ?run) =
                 logged w @ (ERROR, Log_PipelineFailed ?e) #
                 (if debug then [(ERROR, Log_Traceback)] else [])"
    if which: "(file_path = circ_file \<and> p = ''hsa_circ_'') \<or>
               (file_path = mirna_file \<and> p = ''hsa-miR'' \<and>
                (\<exists>ids. fst (validate_input_format circ_file (Some ''hsa_circ_'') w) = Inr ids))"
  proof -
    have c: "check_inputs env circ_file mirna_file deg_file w = (Inl ?e, w)"
      using which
    proof
      assume "file_path = circ_file \<and> p = ''hsa_circ_''"
      with v have "validate_input_format circ_file (Some ''hsa_circ_'') w = (Inl ?e, w)" by simp
      then show ?thesis by (simp add: check_inputs_def andthen_def)
    next
      assume m: "file_path = mirna_file \<and> p = ''hsa-miR'' \<and>
                 (\<exists>ids. fst (validate_input_format circ_file (Some ''hsa_circ_'') w) = Inr ids)"
      then obtain ids where "fst (validate_input_format circ_file (Some ''hsa_circ_'') w) = Inr ids"
        by (elim conjE exE)
      then have v1: "validate_input_format circ_file (Some ''hsa_circ_'') w = (Inr ids, w)"
        using validate_result [of circ_file "Some ''hsa_circ_''" w] by simp
      from m v have v2: "validate_input_format mirna_file (Some ''hsa-miR'') w = (Inl ?e, w)"
        by simp
      show ?thesis by (simp add: check_inputs_def andthen_def v1 v2)
    qed
    then have "pipeline_body env circ_file mirna_file deg_file debug w = (Inl ?e, w)"
      by (simp add: pipeline_body_def seq_def andthen_def)
    from run_analysis_raises [OF this] show ?thesis by (elim conjE)
  qed
  have run_level:
    "(file_path = circ_file \<and> p = ''hsa_circ_'') \<or> (file_path = mirna_file \<and> p = ''hsa-miR'') \<longrightarrow>
       fst ?run = SysExit 1 \<and> fs (snd ?run) = fs w \<and> calls (snd ?run) = calls w \<and>
       (\<exists>e. logged (snd ?run) =
              logged w @ (ERROR, Log_PipelineFailed e) #
                (if debug then [(ERROR, Log_Traceback)] else []))"
    by (rule impI) (rule run)
  have error_line:
    "(file_path = circ_file \<and> p = ''hsa_circ_'') \<or>
     (file_path = mirna_file \<and> p = ''hsa-miR'' \<and>
      (\<exists>ids. fst (validate_input_format circ_file (Some ''hsa_circ_'') w) = Inr ids)) \<longrightarrow>
       logged (snd ?run) =
         logged w @ (ERROR, Log_PipelineFailed ?e) #
         (if debug then [(ERROR, Log_Traceback)] else [])"
    by (rule impI) (rule named)
  show ?thesis
    by (intro exI [of _ bad] conjI) (rule bad, rule mem, rule tk, rule v, rule run_level, rule error_line)
qed

lemma bad_mirna_lines:
  "nonblank_stripped (file_lines ''hsa-miR-21\<newline>mmu-let-7\<newline>'') = [''hsa-miR-21'', ''mmu-let-7'']"
  by (simp add: nonblank_stripped_def file_lines_def strip_def isspace_def)

lemma circ_lines:
  "nonblank_stripped (file_lines ''hsa_circ_0001\<newline>\<newline>  hsa_circ_0002  \<newline>'') =
     [''hsa_circ_0001'', ''hsa_circ_0002'']"
  by (simp add: nonblank_stripped_def file_lines_def strip_def isspace_def)

theorem invalid_line_aborts_run_witness:
  "validate_input_format ''mirna.txt'' (Some ''hsa-miR'') bad_mirna_world =
     (Inl (ValueError
        [CHR ''I'', CHR ''n'', CHR ''v'', CHR ''a'', CHR ''l'', CHR ''i'', CHR ''d'', CHR '' '',
         CHR ''I'', CHR ''D'', CHR '' '',
         CHR ''f'', CHR ''o'', CHR ''r'', CHR ''m'', CHR ''a'', CHR ''t'', CHR '' '',
         CHR ''i'', CHR ''n'', CHR '' '',
         CHR ''m'', CHR ''i'', CHR ''r'', CHR ''n'', CHR ''a'', CHR ''.'', CHR ''t'', CHR ''x'', CHR ''t'',
         CHR '':'', CHR '' '', CHR 0x27,
         CHR ''m'', CHR ''m'', CHR ''u'', CHR ''-'', CHR ''l'', CHR ''e'', CHR ''t'', CHR ''-'', CHR ''7'',
         CHR 0x27]), bad_mirna_world) \<and>
   fst (run_analysis sample_env ''circ.txt'' ''mirna.txt'' ''deg.txt'' False bad_mirna_world) = SysExit 1 \<and>
   fs (snd (run_analysis sample_env ''circ.txt'' ''mirna.txt'' ''deg.txt'' False bad_mirna_world))
      ''output/old.csv'' = Some (File ''x'') \<and>
   calls (snd (run_analysis sample_env ''circ.txt'' ''mirna.txt'' ''deg.txt'' False bad_mirna_world)) = [] \<and>
   logged (snd (run_analysis sample_env ''circ.txt'' ''mirna.txt'' ''deg.txt'' False bad_mirna_world)) =
     [(ERROR, Log_PipelineFailed (ValueError
        (''Invalid ID format in mirna.txt: '' @ [CHR 0x27] @ ''mmu-let-7'' @ [CHR 0x27])))]"
proof -
  have f: "fs bad_mirna_world ''mirna.txt'' = Some (File ''hsa-miR-21\<newline>mmu-let-7\<newline>'')"
    by (simp add: bad_mirna_world_def)
  have l: "''mmu-let-7'' \<in> set (nonblank_stripped (file_lines ''hsa-miR-21\<newline>mmu-let-7\<newline>''))"
    by (simp add: bad_mirna_lines)
  have n: "\<not> startswith ''mmu-let-7'' ''hsa-miR''"
    by (simp add: startswith_def)
  have b: "find (\<lambda>l. \<not> startswith l ''hsa-miR'')
             (nonblank_stripped (file_lines ''hsa-miR-21\<newline>mmu-let-7\<newline>'')) = Some ''mmu-let-7''"
    by (simp add: bad_mirna_lines startswith_def)
  have c: "fst (validate_input_format ''circ.txt'' (Some ''hsa_circ_'') bad_mirna_world) =
             Inr [''hsa_circ_0001'', ''hsa_circ_0002'']"
    by (simp add: validate_input_format_def open_text_def bad_mirna_world_def sample_files_def
        circ_lines prefix_violated_def startswith_def Let_def)
  have old: "fs bad_mirna_world ''output/old.csv'' = Some (File ''x'')" "calls bad_mirna_world = []"
    "logged bad_mirna_world = []"
    by (simp_all add: bad_mirna_world_def sample_files_def)
  from invalid_line_aborts_run
         [OF f l n, of "''circ.txt''" "''mirna.txt''" sample_env "''deg.txt''" False]
       b c old
  show ?thesis by auto
qed

section \<open>Properties of the drug-gene stage\<close>

lemma distinct_unique: "distinct (unique xs)"
  by (simp add: unique_def)

lemma set_unique: "set (unique xs) = set xs"
  by (simp add: unique_def)

lemma set_dropna: "set (dropna vs) = set vs - {PNone}"
  by (auto simp: dropna_def)

lemma load_gene_names_eq:
  "load_gene_names env file_path w =
     (case read_csv env file_path (fs w) of
        (Inl e, files) \<Rightarrow>
          (Inr [], \<lparr>fs = files, logged = logged w @ [(ERROR, Log_ReadFailed e)],
                    calls = calls w @ [Call_read_csv file_path]\<rparr>)
      | (Inr df, files) \<Rightarrow>
          (case map_of df ''Gene'' of
             None \<Rightarrow>
               (Inr [], \<lparr>fs = files, logged = logged w @ [(ERROR, Log_ReadFailed missing_gene_column)],
                         calls = calls w @ [Call_read_csv file_path]\<rparr>)
           | Some col \<Rightarrow>
               (Inr (unique (dropna col)),
                \<lparr>fs = files, logged = logged w @ [(INFO, Log_Loaded (length (unique (dropna col))))],
                 calls = calls w @ [Call_read_csv file_path]\<rparr>)))"
  by (simp add: load_gene_names_def try_except_def andthen_def external_def seq_def emit_def
      returns_def raises_def missing_gene_column_def Let_def
      split: prod.splits sum.splits option.splits)

lemma load_gene_names_calls:
  "calls (snd (load_gene_names env file_path w)) = calls w @ [Call_read_csv file_path]"
  by (simp add: load_gene_names_eq split: prod.splits sum.splits option.splits)

text \<open>
  Claim C7. \<open>load_gene_names\<close> never raises. When the table cannot be read, or has no
  \<open>Gene\<close> column, it logs an error and returns the empty list. When the column is
  there, it returns its values without the missing ones, each once.
\<close>

theorem load_gene_names_never_raises:
  "\<exists>genes w'. load_gene_names env file_path w = (Inr genes, w') \<and>
     distinct genes \<and> PNone \<notin> set genes \<and>
     (\<forall>e files. read_csv env file_path (fs w) = (Inl e, files) \<longrightarrow>
        genes = [] \<and> logged w' = logged w @ [(ERROR, Log_ReadFailed e)]) \<and>
     (\<forall>df files. read_csv env file_path (fs w) = (Inr df, files) \<and> ''Gene'' \<notin> set (map fst df) \<longrightarrow>
        genes = [] \<and> logged w' = logged w @ [(ERROR, Log_ReadFailed missing_gene_column)]) \<and>
     (\<forall>df files col. read_csv env file_path (fs w) = (Inr df, files) \<and> map_of df ''Gene'' = Some col \<longrightarrow>
        set genes = set col - {PNone} \<and>
        logged w' = logged w @ [(INFO, Log_Loaded (length genes))])"
proof (cases "read_csv env file_path (fs w)")
  case (Pair res files)
  show ?thesis
  proof (cases res)
    case (Inl e)
    with Pair show ?thesis by (simp add: load_gene_names_eq)
  next
    case (Inr df)
    show ?thesis
    proof (cases "map_of df ''Gene''")
      case None
      with Pair Inr show ?thesis by (simp add: load_gene_names_eq)
    next
      case (Some col)
      then have "''Gene'' \<in> set (map fst df)"
        by (metis map_of_eq_None_iff option.distinct(1) set_map)
      with Pair Inr Some show ?thesis
        by (simp add: load_gene_names_eq distinct_unique set_unique set_dropna)
    qed
  qed
qed

lemma sample_read_csv:
  "read_csv sample_env ''output/hub_genes.csv'' files =
     (Inr [(''Gene'', [PStr ''TP53'', PNone, PStr ''EGFR'', PStr ''TP53''])], files)"
  "read_csv sample_env ''symbols.csv'' files = (Inr [(''Symbol'', [PStr ''TP53''])], files)"
  by (simp_all add: sample_env_def ext_return_def)

theorem load_gene_names_never_raises_witness:
  "fst (load_gene_names sample_env ''symbols.csv'' sample_world) = Inr [] \<and>
   logged (snd (load_gene_names sample_env ''symbols.csv'' sample_world)) =
     [(ERROR, Log_ReadFailed missing_gene_column)] \<and>
   set (case fst (load_gene_names sample_env ''output/hub_genes.csv'' sample_world) of
          Inl e \<Rightarrow> [] | Inr genes \<Rightarrow> genes) = {PStr ''TP53'', PStr ''EGFR''}"
proof -
  have l: "logged sample_world = []" by (simp add: sample_world_def)
  obtain genes w' where
    a: "load_gene_names sample_env ''symbols.csv'' sample_world = (Inr genes, w') \<and>
     distinct genes \<and> PNone \<notin> set genes \<and>
     (\<forall>e files. read_csv sample_env ''symbols.csv'' (fs sample_world) = (Inl e, files) \<longrightarrow>
        genes = [] \<and> logged w' = logged sample_world @ [(ERROR, Log_ReadFailed e)]) \<and>
     (\<forall>df files. read_csv sample_env ''symbols.csv'' (fs sample_world) = (Inr df, files) \<and> ''Gene'' \<notin> set (map fst df) \<longrightarrow>
        genes = [] \<and> logged w' = logged sample_world @ [(ERROR, Log_ReadFailed missing_gene_column)]) \<and>
     (\<forall>df files col. read_csv sample_env ''symbols.csv'' (fs sample_world) = (Inr df, files) \<and> map_of df ''Gene'' = Some col \<longrightarrow>
        set genes = set col - {PNone} \<and>
        logged w' = logged sample_world @ [(INFO, Log_Loaded (length genes))])"
    using load_gene_names_never_raises [of sample_env "''symbols.csv''" sample_world]
    by (elim exE)
  then have c: "genes = [] \<and> logged w' = [(ERROR, Log_ReadFailed missing_gene_column)]"
    by (simp add: sample_read_csv l)
  obtain genes2 w2 where
    a2: "load_gene_names sample_env ''output/hub_genes.csv'' sample_world = (Inr genes2, w2) \<and>
     distinct genes2 \<and> PNone \<notin> set genes2 \<and>
     (\<forall>e files. read_csv sample_env ''output/hub_genes.csv'' (fs sample_world) = (Inl e, files) \<longrightarrow>
        genes2 = [] \<and> logged w2 = logged sample_world @ [(ERROR, Log_ReadFailed e)]) \<and>
     (\<forall>df files. read_csv sample_env ''output/hub_genes.csv'' (fs sample_world) = (Inr df, files) \<and> ''Gene'' \<notin> set (map fst df) \<longrightarrow>
        genes2 = [] \<and> logged w2 = logged sample_world @ [(ERROR, Log_ReadFailed missing_gene_column)]) \<and>
     (\<forall>df files col. read_csv sample_env ''output/hub_genes.csv'' (fs sample_world) = (Inr df, files) \<and> map_of df ''Gene'' = Some col \<longrightarrow>
        set genes2 = set col - {PNone} \<and>
        logged w2 = logged sample_world @ [(INFO, Log_Loaded (length genes2))])"
    using load_gene_names_never_raises [of sample_env "''output/hub_genes.csv''" sample_world]
    by (elim exE)
  then have "set genes2 = {PStr ''TP53'', PStr ''EGFR''}"
    by (auto simp: sample_read_csv)
  with a c a2 show ?thesis by simp
qed

lemma run_pipeline_no_genes:
  assumes "fst (load_gene_names env INPUT_FILE (w\<lparr>logged := logged w @ [(INFO, Log_Started)]\<rparr>)) = Inr []"
  shows "run_pipeline env INPUT_FILE OUTPUT_FULL_CSV OUTPUT_BAR w =
           (Inr (), (snd (load_gene_names env INPUT_FILE (w\<lparr>logged := logged w @ [(INFO, Log_Started)]\<rparr>)))
                      \<lparr>logged := logged (snd (load_gene_names env INPUT_FILE
                           (w\<lparr>logged := logged w @ [(INFO, Log_Started)]\<rparr>))) @
                         [(WARNING, Log_NoValidGenes)]\<rparr>)"
  using assms
  by (cases "load_gene_names env INPUT_FILE (w\<lparr>logged := logged w @ [(INFO, Log_Started)]\<rparr>)")
     (simp add: run_pipeline_def seq_def andthen_def emit_def)

text \<open>
  Claim C8. When the list of loaded genes is empty, \<open>run_pipeline\<close> returns after the
  warning, and the only call it has made is the reading of the table: no request is
  sent to the drug-gene interaction service.
\<close>

theorem empty_gene_list_no_request:
  assumes "fst (load_gene_names env INPUT_FILE (w\<lparr>logged := logged w @ [(INFO, Log_Started)]\<rparr>)) = Inr []"
  shows "fst (run_pipeline env INPUT_FILE OUTPUT_FULL_CSV OUTPUT_BAR w) = Inr () \<and>
         calls (snd (run_pipeline env INPUT_FILE OUTPUT_FULL_CSV OUTPUT_BAR w)) =
           calls w @ [Call_read_csv INPUT_FILE] \<and>
         last (logged (snd (run_pipeline env INPUT_FILE OUTPUT_FULL_CSV OUTPUT_BAR w))) =
           (WARNING, Log_NoValidGenes)"
  using run_pipeline_no_genes [OF assms, of OUTPUT_FULL_CSV OUTPUT_BAR]
  by (simp add: load_gene_names_calls)

theorem empty_gene_list_no_request_witness:
  "fst (load_gene_names sample_env ''symbols.csv''
          (sample_world\<lparr>logged := logged sample_world @ [(INFO, Log_Started)]\<rparr>)) = Inr [] \<and>
   fst (run_pipeline sample_env ''symbols.csv'' ''full.csv'' ''bar.png'' sample_world) = Inr () \<and>
   calls (snd (run_pipeline sample_env ''symbols.csv'' ''full.csv'' ''bar.png'' sample_world)) =
     [Call_read_csv ''symbols.csv'']"
proof -
  have g: "fst (load_gene_names sample_env ''symbols.csv''
          (sample_world\<lparr>logged := logged sample_world @ [(INFO, Log_Started)]\<rparr>)) = Inr []"
    by (simp add: load_gene_names_eq sample_read_csv)
  have c: "calls sample_world = []" by (simp add: sample_world_def)
  from empty_gene_list_no_request [OF g, of "''full.csv''" "''bar.png''"] g c
  show ?thesis by simp
qed

lemma pipeline_body_split:
  "pipeline_body env c m d debug w =
     andthen (upstream env c m d debug)
       (\<lambda>(total_circs, total_sites, n_genes).
          seq (drug_gene_stage env) (summary total_circs total_sites n_genes)) w"
  unfolding pipeline_body_def upstream_def seq_def andthen_def returns_def
  by (simp split: prod.splits sum.splits)

lemma query_dgidb_http_error:
  assumes "requests_post env dgidb_url genes (fs w) = (Inr r, files)"
      and "status_code r \<noteq> 200"
  shows "query_dgidb env genes w =
           (Inr (Some []),
            \<lparr>fs = files,
             logged = logged w @ [(ERROR, Log_ApiError (status_code r) (text_of r))],
             calls = calls w @ [Call_requests_post dgidb_url genes]\<rparr>)"
  using assms
  by (simp add: query_dgidb_def try_except_def andthen_def external_def seq_def emit_def
      returns_def)

lemma run_pipeline_http_error:
  assumes "read_csv env INPUT_FILE (fs w) = (Inr df, files1)"
      and "map_of df ''Gene'' = Some col"
      and "unique (dropna col) \<noteq> []"
      and "requests_post env dgidb_url (unique (dropna col)) files1 = (Inr r, files2)"
      and "status_code r \<noteq> 200"
  shows "run_pipeline env INPUT_FILE OUTPUT_FULL_CSV OUTPUT_BAR w =
           (Inr (),
            \<lparr>fs = files2,
             logged = logged w @
               [(INFO, Log_Started),
                (INFO, Log_Loaded (length (unique (dropna col)))),
                (INFO, Log_Querying (length (unique (dropna col)))),
                (ERROR, Log_ApiError (status_code r) (text_of r)),
                (WARNING, Log_NoData)],
             calls = calls w @
               [Call_read_csv INPUT_FILE, Call_requests_post dgidb_url (unique (dropna col))]\<rparr>)"
proof -
  let ?genes = "unique (dropna col)"
  let ?w0 = "w\<lparr>logged := logged w @ [(INFO, Log_Started)]\<rparr>"
  let ?w1 = "\<lparr>fs = files1,
              logged = logged w @ [(INFO, Log_Started), (INFO, Log_Loaded (length ?genes))],
              calls = calls w @ [Call_read_csv INPUT_FILE]\<rparr>"
  let ?w2 = "\<lparr>fs = files1,
              logged = logged w @ [(INFO, Log_Started), (INFO, Log_Loaded (length ?genes)),
                                   (INFO, Log_Querying (length ?genes))],
              calls = calls w @ [Call_read_csv INPUT_FILE]\<rparr>"
  have l: "load_gene_names env INPUT_FILE ?w0 = (Inr ?genes, ?w1)"
    using assms(1,2) by (simp add: load_gene_names_eq)
  have "query_dgidb env ?genes ?w2 =
             (Inr (Some []),
              \<lparr>fs = files2,
               logged = logged ?w2 @ [(ERROR, Log_ApiError (status_code r) (text_of r))],
               calls = calls ?w2 @ [Call_requests_post dgidb_url ?genes]\<rparr>)"
    by (rule query_dgidb_http_error) (simp_all add: assms(4,5))
  then have q: "query_dgidb env ?genes ?w2 =
             (Inr (Some []),
              \<lparr>fs = files2,
               logged = logged w @ [(INFO, Log_Started), (INFO, Log_Loaded (length ?genes)),
                                   (INFO, Log_Querying (length ?genes)),
                                   (ERROR, Log_ApiError (status_code r) (text_of r))],
               calls = calls w @ [Call_read_csv INPUT_FILE,
                                  Call_requests_post dgidb_url ?genes]\<rparr>)"
    by simp
  show ?thesis
    unfolding run_pipeline_def seq_def andthen_def
    using assms(3) by (simp add: emit_def l q falsy_def)
qed

lemma drug_gene_stage_http_error:
  assumes "path_exists (fs w) hub_genes_path"
      and "fs w ''output'' = Some Dir"
      and "read_csv env hub_genes_path (fs w) = (Inr df, files1)"
      and "map_of df ''Gene'' = Some col"
      and "unique (dropna col) \<noteq> []"
      and "requests_post env dgidb_url (unique (dropna col)) files1 = (Inr r, files2)"
      and "status_code r \<noteq> 200"
  shows "drug_gene_stage env w =
           (Inr (),
            \<lparr>fs = files2,
             logged = logged w @
               [(INFO, Log_Rule), (INFO, Log_Step5), (INFO, Log_Started),
                (INFO, Log_Loaded (length (unique (dropna col)))),
                (INFO, Log_Querying (length (unique (dropna col)))),
                (ERROR, Log_ApiError (status_code r) (text_of r)),
                (WARNING, Log_NoData)],
             calls = calls w @
               [Call_read_csv hub_genes_path, Call_requests_post dgidb_url (unique (dropna col))]\<rparr>)"
proof -
  let ?w = "w\<lparr>logged := logged w @ [(INFO, Log_Rule), (INFO, Log_Step5)]\<rparr>"
  have r: "read_csv env hub_genes_path (fs ?w) = (Inr df, files1)"
    using assms(3) by simp
  have m: "makedirs ''output'' True ?w = (Inr (), ?w)"
    using assms(2) by (simp add: makedirs_def)
  show ?thesis
    unfolding drug_gene_stage_def main_def seq_def andthen_def
    using assms(1) run_pipeline_http_error [OF r assms(4,5,6,7)]
    by (simp add: emit_def m)
qed

text \<open>
  Claim C5. When the drug-gene interaction service answers with a status other than
  200, \<open>query_dgidb\<close> logs the status and the text of the answer and returns the empty
  list. In a run that has reached step 5 with a hub-genes table that names a gene, the
  stage then returns without raising and without calling \<open>to_csv\<close> or \<open>savefig\<close>: it
  leaves the files as the service call left them, and the run returns with the
  \<open>[SUCCESS]\<close> line as its last line.
\<close>

theorem http_error_run_succeeds:
  assumes "upstream env circ_file mirna_file deg_file debug w =
             (Inr (total_circs, total_sites, n_genes), w1)"
      and "path_exists (fs w1) hub_genes_path"
      and "fs w1 ''output'' = Some Dir"
      and "read_csv env hub_genes_path (fs w1) = (Inr df, files1)"
      and "map_of df ''Gene'' = Some col"
      and "unique (dropna col) \<noteq> []"
      and "requests_post env dgidb_url (unique (dropna col)) files1 = (Inr r, files2)"
      and "status_code r \<noteq> 200"
  shows "fst (query_dgidb env (unique (dropna col)) \<lparr>fs = files1, logged = l, calls = c\<rparr>) =
           Inr (Some []) \<and>
         run_analysis env circ_file mirna_file deg_file debug w =
           (Returned,
            \<lparr>fs = files2,
             logged = logged w1 @
               [(INFO, Log_Rule), (INFO, Log_Step5), (INFO, Log_Started),
                (INFO, Log_Loaded (length (unique (dropna col)))),
                (INFO, Log_Querying (length (unique (dropna col)))),
                (ERROR, Log_ApiError (status_code r) (text_of r)),
                (WARNING, Log_NoData),
                (INFO, Log_Rule),
                (INFO, Log_Success total_circs total_sites n_genes)],
             calls = calls w1 @
               [Call_read_csv hub_genes_path,
                Call_requests_post dgidb_url (unique (dropna col))]\<rparr>)"
proof -
  have q: "fst (query_dgidb env (unique (dropna col)) \<lparr>fs = files1, logged = l, calls = c\<rparr>) =
           Inr (Some [])"
    using query_dgidb_http_error [of env "unique (dropna col)" "\<lparr>fs = files1, logged = l, calls = c\<rparr>" r files2]
      assms(7,8) by simp
  note d = drug_gene_stage_http_error [OF assms(2-8)]
  have "pipeline_body env circ_file mirna_file deg_file debug w =
          (Inr (),
            \<lparr>fs = files2,
             logged = logged w1 @
               [(INFO, Log_Rule), (INFO, Log_Step5), (INFO, Log_Started),
                (INFO, Log_Loaded (length (unique (dropna col)))),
                (INFO, Log_Querying (length (unique (dropna col)))),
                (ERROR, Log_ApiError (status_code r) (text_of r)),
                (WARNING, Log_NoData),
                (INFO, Log_Rule),
                (INFO, Log_Success total_circs total_sites n_genes)],
             calls = calls w1 @
               [Call_read_csv hub_genes_path,
                Call_requests_post dgidb_url (unique (dropna col))]\<rparr>)"
    unfolding pipeline_body_split
    by (simp add: andthen_def seq_def assms(1) d summary_def emit_def)
  then show ?thesis using q by (simp add: run_analysis_def)
qed

lemma sample_upstream:
  "\<exists>W. upstream sample_env ''circ.txt'' ''mirna.txt'' ''deg.txt'' False sample_world = (Inr (1, 2, 2), W) \<and>
       path_exists (fs W) hub_genes_path \<and> fs W ''output'' = Some Dir \<and>
       fs W ''output/old.csv'' = None \<and>
       logged W =
         [(INFO, Log_Inputs 2 1 2), (INFO, Log_Rule), (INFO, Log_Step1), (INFO, Log_Processed 1),
          (INFO, Log_BindingSites 2), (INFO, Log_ExcelGenerated), (INFO, Log_Rule), (INFO, Log_Step2_5),
          (INFO, Log_NetworkConstructed 5 4), (INFO, Log_Rule), (INFO, Log_Step3),
          (INFO, Log_Rule), (INFO, Log_Step4)] \<and>
       calls W =
         [Call_SecondPipeline
            [''circ.txt'', ''mirna.txt'', ''deg.txt'',
             ''app/Model_Files/calibrated_catboost_site_type_model.pkl'',
             ''app/Model_Files/label_encoder.pkl'',
             ''app/Model_Files/robust_scaler.pkl'', ''temp'', ''output''],
          Call_process_all_circs, Call_find_strong_hits, Call_match_mirnas,
          Call_analyze_mrna_overlap, Call_create_comprehensive_excel, Call_construct_network,
          Call_extract_overlapping_genes,
          Call_enrichment_main ''output/overlapping_genes.csv'' ''output/enrichment_results'',
          Call_PPI_Analysis ''output/overlapping_genes.csv'']"
  by (simp add: upstream_def check_inputs_def validate_input_format_def open_text_def
    sample_world_def sample_files_def sample_env_def ext_return_def ext_write_def ext_raise_def
    seq_def andthen_def returns_def raises_def emit_def external_def try_except_def if_do_def
    file_lines_def nonblank_stripped_def strip_def isspace_def prefix_violated_def startswith_def
    model_files_def path_join_def path_exists_def reset_folders_def reset_folder_def rmtree_def
    makedirs_def under_def prediction_def report_overlap_def network_stage_def overlap_stage_def
    enrichment_stage_def ppi_stage_def overlapping_path_def hub_genes_path_def)

lemma sample_hub_genes:
  "unique (dropna [PStr ''TP53'', PNone, PStr ''EGFR'', PStr ''TP53'']) = [PStr ''TP53'', PStr ''EGFR'']"
  by (simp add: unique_def dropna_def)

lemma sample_requests_post:
  "requests_post sample_env url genes files =
     (Inr \<lparr>status_code = 500, text_of = ''Internal Server Error'',
            json = Inl (ValueError ''Expecting value'')\<rparr>, files)"
  by (simp add: sample_env_def ext_return_def)

theorem http_error_run_succeeds_witness:
  "fst (run_analysis sample_env ''circ.txt'' ''mirna.txt'' ''deg.txt'' False sample_world) = Returned \<and>
   last (logged (snd (run_analysis sample_env ''circ.txt'' ''mirna.txt'' ''deg.txt'' False sample_world))) =
     (INFO, Log_Success 1 2 2) \<and>
   (ERROR, Log_ApiError 500 ''Internal Server Error'') \<in>
     set (logged (snd (run_analysis sample_env ''circ.txt'' ''mirna.txt'' ''deg.txt'' False sample_world))) \<and>
   drop 10 (calls (snd (run_analysis sample_env ''circ.txt'' ''mirna.txt'' ''deg.txt'' False sample_world))) =
     [Call_read_csv ''output/hub_genes.csv'',
      Call_requests_post dgidb_url [PStr ''TP53'', PStr ''EGFR'']]"
proof -
  obtain W where W:
    "upstream sample_env ''circ.txt'' ''mirna.txt'' ''deg.txt'' False sample_world = (Inr (1, 2, 2), W) \<and>
       path_exists (fs W) hub_genes_path \<and> fs W ''output'' = Some Dir \<and>
       fs W ''output/old.csv'' = None \<and>
       logged W =
         [(INFO, Log_Inputs 2 1 2), (INFO, Log_Rule), (INFO, Log_Step1), (INFO, Log_Processed 1),
          (INFO, Log_BindingSites 2), (INFO, Log_ExcelGenerated), (INFO, Log_Rule), (INFO, Log_Step2_5),
          (INFO, Log_NetworkConstructed 5 4), (INFO, Log_Rule), (INFO, Log_Step3),
          (INFO, Log_Rule), (INFO, Log_Step4)] \<and>
       calls W =
         [Call_SecondPipeline
            [''circ.txt'', ''mirna.txt'', ''deg.txt'',
             ''app/Model_Files/calibrated_catboost_site_type_model.pkl'',
             ''app/Model_Files/label_encoder.pkl'',
             ''app/Model_Files/robust_scaler.pkl'', ''temp'', ''output''],
          Call_process_all_circs, Call_find_strong_hits, Call_match_mirnas,
          Call_analyze_mrna_overlap, Call_create_comprehensive_excel, Call_construct_network,
          Call_extract_overlapping_genes,
          Call_enrichment_main ''output/overlapping_genes.csv'' ''output/enrichment_results'',
          Call_PPI_Analysis ''output/overlapping_genes.csv'']"
    using sample_upstream by (elim exE)
  have up: "upstream sample_env ''circ.txt'' ''mirna.txt'' ''deg.txt'' False sample_world = (Inr (1, 2, 2), W)"
    and hub: "path_exists (fs W) hub_genes_path"
    and out: "fs W ''output'' = Some Dir"
    using W by simp_all
  have hp: "hub_genes_path = ''output/hub_genes.csv''"
    by (simp add: hub_genes_path_def path_join_def startswith_def)
  have rd: "read_csv sample_env hub_genes_path (fs W) =
              (Inr [(''Gene'', [PStr ''TP53'', PNone, PStr ''EGFR'', PStr ''TP53''])], fs W)"
    by (simp add: hp sample_read_csv)
  have col: "map_of [(''Gene'', [PStr ''TP53'', PNone, PStr ''EGFR'', PStr ''TP53''])] ''Gene'' =
               Some [PStr ''TP53'', PNone, PStr ''EGFR'', PStr ''TP53'']"
    by simp
  have ne: "unique (dropna [PStr ''TP53'', PNone, PStr ''EGFR'', PStr ''TP53'']) \<noteq> []"
    by (simp add: sample_hub_genes)
  have st: "status_code \<lparr>status_code = 500, text_of = ''Internal Server Error'',
            json = Inl (ValueError ''Expecting value'')\<rparr> \<noteq> 200"
    by simp
  note run = http_error_run_succeeds [OF up hub out rd col ne sample_requests_post st]
  from run W show ?thesis
    by (simp add: sample_hub_genes hp)
qed

section \<open>Exceptions in the stages\<close>

lemma network_stage_returns: "\<exists>w'. network_stage env debug w = (Inr (), w')"
  by (simp add: network_stage_def seq_def andthen_def emit_def try_except_def external_def
      if_do_def returns_def split: prod.splits sum.splits option.splits)

lemma network_stage_caught:
  assumes "construct_network env (fs w) = (Inl e, files)"
  shows "network_stage env debug w =
           (Inr (),
            \<lparr>fs = files,
             logged = logged w @ [(INFO, Log_Rule), (INFO, Log_Step2_5), (WARNING, Log_NetworkFailed e)] @
                        (if debug then [(DEBUG, Log_Traceback)] else []),
             calls = calls w @ [Call_construct_network]\<rparr>)"
  using assms
  by (simp add: network_stage_def seq_def andthen_def emit_def try_except_def external_def
      if_do_def returns_def)

lemma overlap_stage_returns: "\<exists>genes w'. overlap_stage env debug w = (Inr genes, w')"
  by (simp add: overlap_stage_def seq_def andthen_def emit_def try_except_def external_def
      if_do_def returns_def split: prod.splits sum.splits option.splits)

lemma overlap_stage_caught:
  assumes "extract_overlapping_genes env (fs w) = (Inl e, files)"
  shows "overlap_stage env debug w =
           (Inr [],
            \<lparr>fs = files,
             logged = logged w @ (WARNING, Log_OverlapFailed e) #
                        (if debug then [(DEBUG, Log_Traceback)] else []),
             calls = calls w @ [Call_extract_overlapping_genes]\<rparr>)"
  using assms
  by (simp add: overlap_stage_def seq_def andthen_def emit_def try_except_def external_def
      if_do_def returns_def)

lemma prediction_escapes:
  assumes "SecondPipeline env ([c, m, d] @ model_files (dirname env) @ [''temp'', ''output'']) (fs w) =
             (Inl e, files)"
  shows "fst (prediction env c m d w) = Inl e"
  using assms
  by (simp add: prediction_def seq_def andthen_def emit_def external_def)

lemma enrichment_escapes:
  assumes "path_exists (fs w) overlapping_path"
      and "enrichment_main env overlapping_path (path_join ''output'' ''enrichment_results'') (fs w) =
             (Inl e, files)"
  shows "fst (enrichment_stage env w) = Inl e"
  using assms
  by (simp add: enrichment_stage_def seq_def andthen_def emit_def external_def)

lemma ppi_escapes:
  assumes "path_exists (fs w) overlapping_path"
      and "PPI_Analysis env overlapping_path (fs w) = (Inl e, files)"
  shows "fst (ppi_stage env w) = Inl e"
  using assms
  by (simp add: ppi_stage_def seq_def andthen_def emit_def external_def)

lemma drug_gene_escapes:
  assumes "path_exists (fs w) hub_genes_path"
      and "fst (main env hub_genes_path ''output''
                  (w\<lparr>logged := logged w @ [(INFO, Log_Rule), (INFO, Log_Step5)]\<rparr>)) = Inl e"
  shows "fst (drug_gene_stage env w) = Inl e"
  using assms
  by (simp add: drug_gene_stage_def seq_def andthen_def emit_def)

lemma andthen_InrE:
  assumes "andthen m f w = (Inr v, w')"
  obtains u w0 where "m w = (Inr u, w0)" and "f u w0 = (Inr v, w')"
  using assms by (auto simp: andthen_def split: prod.splits sum.splits)

lemma seq_InrE:
  assumes "seq m k w = (Inr v, w')"
  obtains u w0 where "m w = (Inr u, w0)" and "k w0 = (Inr v, w')"
  using assms unfolding seq_def by (rule andthen_InrE)

lemma body_at_prediction:
  assumes "before_prediction env c m d w = (Inr (), w1)"
      and "prediction env c m d w1 = (Inl e, w2)"
  shows "pipeline_body env c m d debug w = (Inl e, w2)"
proof -
  from assms(1) obtain u w0 where a: "check_inputs env c m d w = (Inr u, w0)"
    and b: "reset_folders w0 = (Inr (), w1)"
    unfolding before_prediction_def by (rule seq_InrE)
  show ?thesis
    by (simp add: pipeline_body_def seq_def andthen_def a b assms(2))
qed

lemma before_enrichment_InrE:
  assumes "before_enrichment env c m d debug w = (Inr totals, w5)"
  obtains u w1 w2 total_circs total_sites overlap_df w3 w4 genes where
    "check_inputs env c m d w = (Inr u, w1)" and "reset_folders w1 = (Inr (), w2)" and
    "prediction env c m d w2 = (Inr (total_circs, total_sites, overlap_df), w3)" and
    "report_overlap env debug overlap_df w3 = (Inr (), w4)" and
    "overlap_stage env debug w4 = (Inr genes, w5)" and
    "totals = (total_circs, total_sites, length genes)"
proof -
  from assms obtain u1 w2 where bp: "before_prediction env c m d w = (Inr u1, w2)"
    and r1: "andthen (prediction env c m d) (\<lambda>(total_circs, total_sites, overlap_df).
               seq (report_overlap env debug overlap_df)
              (andthen (overlap_stage env debug) (\<lambda>genes.
                 returns (total_circs, total_sites, length genes)))) w2 = (Inr totals, w5)"
    unfolding before_enrichment_def by (rule seq_InrE)
  from bp obtain u w1 where a: "check_inputs env c m d w = (Inr u, w1)"
    and b: "reset_folders w1 = (Inr u1, w2)"
    unfolding before_prediction_def by (rule seq_InrE)
  from r1 obtain x w3 where p: "prediction env c m d w2 = (Inr x, w3)"
    and r2: "(case x of (total_circs, total_sites, overlap_df) \<Rightarrow>
               seq (report_overlap env debug overlap_df)
              (andthen (overlap_stage env debug) (\<lambda>genes.
                 returns (total_circs, total_sites, length genes)))) w3 = (Inr totals, w5)"
    by (rule andthen_InrE)
  obtain total_circs total_sites overlap_df where x: "x = (total_circs, total_sites, overlap_df)"
    by (cases x)
  from r2 x obtain u2 w4 where ro: "report_overlap env debug overlap_df w3 = (Inr u2, w4)"
    and r3: "andthen (overlap_stage env debug) (\<lambda>genes.
                 returns (total_circs, total_sites, length genes)) w4 = (Inr totals, w5)"
    by (auto elim: seq_InrE)
  from r3 obtain genes w5' where os: "overlap_stage env debug w4 = (Inr genes, w5')"
    and r4: "returns (total_circs, total_sites, length genes) w5' = (Inr totals, w5)"
    by (rule andthen_InrE)
  from r4 have "totals = (total_circs, total_sites, length genes)" "w5' = w5"
    by (simp_all add: returns_def)
  with a b p x ro os show ?thesis using that by simp
qed

lemma body_at_enrichment:
  assumes "before_enrichment env c m d debug w = (Inr totals, w1)"
      and "enrichment_stage env w1 = (Inl e, w2)"
  shows "pipeline_body env c m d debug w = (Inl e, w2)"
  using assms(1)
proof (rule before_enrichment_InrE)
  fix u wa wb total_circs total_sites overlap_df wc wd genes
  assume "check_inputs env c m d w = (Inr u, wa)" "reset_folders wa = (Inr (), wb)"
    "prediction env c m d wb = (Inr (total_circs, total_sites, overlap_df), wc)"
    "report_overlap env debug overlap_df wc = (Inr (), wd)"
    "overlap_stage env debug wd = (Inr genes, w1)"
  then show ?thesis
    by (simp add: pipeline_body_def seq_def andthen_def assms(2))
qed

lemma body_at_ppi:
  assumes "before_ppi env c m d debug w = (Inr totals, w1)"
      and "ppi_stage env w1 = (Inl e, w2)"
  shows "pipeline_body env c m d debug w = (Inl e, w2)"
proof -
  from assms(1) obtain t0 w0 where be: "before_enrichment env c m d debug w = (Inr t0, w0)"
    and en: "seq (enrichment_stage env) (returns t0) w0 = (Inr totals, w1)"
    unfolding before_ppi_def by (rule andthen_InrE)
  from en obtain u w1' where es: "enrichment_stage env w0 = (Inr u, w1')"
    and "returns t0 w1' = (Inr totals, w1)"
    by (rule seq_InrE)
  then have es': "enrichment_stage env w0 = (Inr u, w1)" by (simp add: returns_def)
  from be show ?thesis
  proof (rule before_enrichment_InrE)
    fix u0 wa wb total_circs total_sites overlap_df wc wd genes
    assume "check_inputs env c m d w = (Inr u0, wa)" "reset_folders wa = (Inr (), wb)"
      "prediction env c m d wb = (Inr (total_circs, total_sites, overlap_df), wc)"
      "report_overlap env debug overlap_df wc = (Inr (), wd)"
      "overlap_stage env debug wd = (Inr genes, w0)"
    then show ?thesis
      by (simp add: pipeline_body_def seq_def andthen_def es' assms(2))
  qed
qed

lemma body_at_drug_gene:
  assumes "upstream env c m d debug w = (Inr totals, w1)"
      and "drug_gene_stage env w1 = (Inl e, w2)"
  shows "pipeline_body env c m d debug w = (Inl e, w2)"
  unfolding pipeline_body_split
  by (cases totals) (simp add: seq_def andthen_def assms split: prod.splits)

lemma run_analysis_handler:
  assumes "pipeline_body env c m d debug w = (Inl e, w')"
  shows "run_analysis env c m d debug w =
           (SysExit 1,
            w'\<lparr>logged := logged w' @ (ERROR, Log_PipelineFailed e) #
                             (if debug then [(ERROR, Log_Traceback)] else [])\<rparr>)"
  using assms
  by (simp add: run_analysis_def seq_def andthen_def emit_def if_do_def returns_def)

text \<open>
  Claim C2, as the code has it. An exception raised by the construction of the network
  or by the extraction of the overlapping genes is caught in its stage and logged as a
  warning (with the stack trace at debug level under the debug flag), and the stage
  returns. The calls of the prediction pipeline, of \<open>enrichment_main\<close>, of
  \<open>PPI_Analysis\<close> and of the drug-gene \<open>main\<close> are inside no handler of their stage:
  an exception that leaves one of these stages, in a run that has reached it, is caught
  by the outer handler, which logs it as an error (with the stack trace under the debug
  flag) and ends the run with exit status 1.
\<close>

theorem stage_exception_policy:
  "(\<exists>v'. network_stage env debug v = (Inr (), v')) \<and>
   (\<forall>e files. construct_network env (fs v) = (Inl e, files) \<longrightarrow>
      network_stage env debug v =
        (Inr (),
         \<lparr>fs = files,
          logged = logged v @ [(INFO, Log_Rule), (INFO, Log_Step2_5), (WARNING, Log_NetworkFailed e)] @
                     (if debug then [(DEBUG, Log_Traceback)] else []),
          calls = calls v @ [Call_construct_network]\<rparr>)) \<and>
   (\<exists>genes v'. overlap_stage env debug v = (Inr genes, v')) \<and>
   (\<forall>e files. extract_overlapping_genes env (fs v) = (Inl e, files) \<longrightarrow>
      overlap_stage env debug v =
        (Inr [],
         \<lparr>fs = files,
          logged = logged v @ (WARNING, Log_OverlapFailed e) #
                     (if debug then [(DEBUG, Log_Traceback)] else []),
          calls = calls v @ [Call_extract_overlapping_genes]\<rparr>)) \<and>
   (\<forall>e files.
      SecondPipeline env
        ([circ_file, mirna_file, deg_file] @ model_files (dirname env) @ [''temp'', ''output''])
        (fs v) = (Inl e, files) \<longrightarrow>
      fst (prediction env circ_file mirna_file deg_file v) = Inl e) \<and>
   (\<forall>e files.
      path_exists (fs v) overlapping_path \<and>
      enrichment_main env overlapping_path (path_join ''output'' ''enrichment_results'') (fs v) =
        (Inl e, files) \<longrightarrow>
      fst (enrichment_stage env v) = Inl e) \<and>
   (\<forall>e files.
      path_exists (fs v) overlapping_path \<and>
      PPI_Analysis env overlapping_path (fs v) = (Inl e, files) \<longrightarrow>
      fst (ppi_stage env v) = Inl e) \<and>
   (\<forall>e.
      path_exists (fs v) hub_genes_path \<and>
      fst (main env hub_genes_path ''output''
             (v\<lparr>logged := logged v @ [(INFO, Log_Rule), (INFO, Log_Step5)]\<rparr>)) = Inl e \<longrightarrow>
      fst (drug_gene_stage env v) = Inl e) \<and>
   (\<forall>w1 e w2.
      before_prediction env circ_file mirna_file deg_file w = (Inr (), w1) \<and>
      prediction env circ_file mirna_file deg_file w1 = (Inl e, w2) \<longrightarrow>
      run_analysis env circ_file mirna_file deg_file debug w =
        (SysExit 1,
         w2\<lparr>logged := logged w2 @ (ERROR, Log_PipelineFailed e) #
                          (if debug then [(ERROR, Log_Traceback)] else [])\<rparr>)) \<and>
   (\<forall>totals w1 e w2.
      before_enrichment env circ_file mirna_file deg_file debug w = (Inr totals, w1) \<and>
      enrichment_stage env w1 = (Inl e, w2) \<longrightarrow>
      run_analysis env circ_file mirna_file deg_file debug w =
        (SysExit 1,
         w2\<lparr>logged := logged w2 @ (ERROR, Log_PipelineFailed e) #
                          (if debug then [(ERROR, Log_Traceback)] else [])\<rparr>)) \<and>
   (\<forall>totals w1 e w2.
      before_ppi env circ_file mirna_file deg_file debug w = (Inr totals, w1) \<and>
      ppi_stage env w1 = (Inl e, w2) \<longrightarrow>
      run_analysis env circ_file mirna_file deg_file debug w =
        (SysExit 1,
         w2\<lparr>logged := logged w2 @ (ERROR, Log_PipelineFailed e) #
                          (if debug then [(ERROR, Log_Traceback)] else [])\<rparr>)) \<and>
   (\<forall>totals w1 e w2.
      upstream env circ_file mirna_file deg_file debug w = (Inr totals, w1) \<and>
      drug_gene_stage env w1 = (Inl e, w2) \<longrightarrow>
      run_analysis env circ_file mirna_file deg_file debug w =
        (SysExit 1,
         w2\<lparr>logged := logged w2 @ (ERROR, Log_PipelineFailed e) #
                          (if debug then [(ERROR, Log_Traceback)] else [])\<rparr>))"
proof (intro conjI allI impI)
  show "\<exists>v'. network_stage env debug v = (Inr (), v')" by (rule network_stage_returns)
  show "\<exists>genes v'. overlap_stage env debug v = (Inr genes, v')" by (rule overlap_stage_returns)
next
  fix e files assume "construct_network env (fs v) = (Inl e, files)"
  then show "network_stage env debug v =
        (Inr (),
         \<lparr>fs = files,
          logged = logged v @ [(INFO, Log_Rule), (INFO, Log_Step2_5), (WARNING, Log_NetworkFailed e)] @
                     (if debug then [(DEBUG, Log_Traceback)] else []),
          calls = calls v @ [Call_construct_network]\<rparr>)"
    by (rule network_stage_caught)
next
  fix e files assume "extract_overlapping_genes env (fs v) = (Inl e, files)"
  then show "overlap_stage env debug v =
        (Inr [],
         \<lparr>fs = files,
          logged = logged v @ (WARNING, Log_OverlapFailed e) #
                     (if debug then [(DEBUG, Log_Traceback)] else []),
          calls = calls v @ [Call_extract_overlapping_genes]\<rparr>)"
    by (rule overlap_stage_caught)
next
  fix e files
  assume "SecondPipeline env
        ([circ_file, mirna_file, deg_file] @ model_files (dirname env) @ [''temp'', ''output''])
        (fs v) = (Inl e, files)"
  then show "fst (prediction env circ_file mirna_file deg_file v) = Inl e"
    by (rule prediction_escapes)
next
  fix e files
  assume "path_exists (fs v) overlapping_path \<and>
      enrichment_main env overlapping_path (path_join ''output'' ''enrichment_results'') (fs v) =
        (Inl e, files)"
  then show "fst (enrichment_stage env v) = Inl e"
    using enrichment_escapes by blast
next
  fix e files
  assume "path_exists (fs v) overlapping_path \<and>
      PPI_Analysis env overlapping_path (fs v) = (Inl e, files)"
  then show "fst (ppi_stage env v) = Inl e"
    using ppi_escapes by blast
next
  fix e
  assume "path_exists (fs v) hub_genes_path \<and>
      fst (main env hub_genes_path ''output''
             (v\<lparr>logged := logged v @ [(INFO, Log_Rule), (INFO, Log_Step5)]\<rparr>)) = Inl e"
  then show "fst (drug_gene_stage env v) = Inl e"
    using drug_gene_escapes by blast
next
  fix w1 e w2
  assume "before_prediction env circ_file mirna_file deg_file w = (Inr (), w1) \<and>
      prediction env circ_file mirna_file deg_file w1 = (Inl e, w2)"
  then have "pipeline_body env circ_file mirna_file deg_file debug w = (Inl e, w2)"
    using body_at_prediction by blast
  then show "run_analysis env circ_file mirna_file deg_file debug w =
        (SysExit 1,
         w2\<lparr>logged := logged w2 @ (ERROR, Log_PipelineFailed e) #
                          (if debug then [(ERROR, Log_Traceback)] else [])\<rparr>)"
    by (rule run_analysis_handler)
next
  fix totals w1 e w2
  assume "before_enrichment env circ_file mirna_file deg_file debug w = (Inr totals, w1) \<and>
      enrichment_stage env w1 = (Inl e, w2)"
  then have "pipeline_body env circ_file mirna_file deg_file debug w = (Inl e, w2)"
    using body_at_enrichment by blast
  then show "run_analysis env circ_file mirna_file deg_file debug w =
        (SysExit 1,
         w2\<lparr>logged := logged w2 @ (ERROR, Log_PipelineFailed e) #
                          (if debug then [(ERROR, Log_Traceback)] else [])\<rparr>)"
    by (rule run_analysis_handler)
next
  fix totals w1 e w2
  assume "before_ppi env circ_file mirna_file deg_file debug w = (Inr totals, w1) \<and>
      ppi_stage env w1 = (Inl e, w2)"
  then have "pipeline_body env circ_file mirna_file deg_file debug w = (Inl e, w2)"
    using body_at_ppi by blast
  then show "run_analysis env circ_file mirna_file deg_file debug w =
        (SysExit 1,
         w2\<lparr>logged := logged w2 @ (ERROR, Log_PipelineFailed e) #
                          (if debug then [(ERROR, Log_Traceback)] else [])\<rparr>)"
    by (rule run_analysis_handler)
next
  fix totals w1 e w2
  assume "upstream env circ_file mirna_file deg_file debug w = (Inr totals, w1) \<and>
      drug_gene_stage env w1 = (Inl e, w2)"
  then have "pipeline_body env circ_file mirna_file deg_file debug w = (Inl e, w2)"
    using body_at_drug_gene by blast
  then show "run_analysis env circ_file mirna_file deg_file debug w =
        (SysExit 1,
         w2\<lparr>logged := logged w2 @ (ERROR, Log_PipelineFailed e) #
                          (if debug then [(ERROR, Log_Traceback)] else [])\<rparr>)"
    by (rule run_analysis_handler)
qed

lemma failing_fields:
  "SecondPipeline failing_env args files = (Inl (OtherError ''cannot load the model''), files)"
  "construct_network failing_env files = (Inl (OtherError ''no graph''), files)"
  "extract_overlapping_genes failing_env files = (Inl (OtherError ''no overlap table''), files)"
  "enrichment_main failing_env path dir files = (Inl (OtherError ''enrichment service down''), files)"
  "PPI_Analysis failing_env path files = (Inl (OtherError ''PPI service down''), files)"
  by (simp_all add: failing_env_def ext_raise_def)

lemma staged_paths:
  "path_exists (fs staged_world) overlapping_path"
  "path_exists (fs staged_world) hub_genes_path"
  by (simp_all add: staged_world_def path_exists_def overlapping_path_def hub_genes_path_def
      path_join_def startswith_def)

lemma failing_main:
  "fst (main failing_env hub_genes_path ''output''
          (staged_world\<lparr>logged := logged staged_world @ [(INFO, Log_Rule), (INFO, Log_Step5)]\<rparr>)) =
     Inl (TypeError ''sequence item 0: expected str instance, NoneType found'')"
  by (simp add: main_def makedirs_def staged_world_def sample_files_def run_pipeline_def
      load_gene_names_eq query_dgidb_def nodes_of_def extract_interactions_def
      null_source_response_def failing_env_def sample_env_def ext_return_def ext_raise_def
      hub_genes_path_def path_join_def startswith_def
      seq_def andthen_def emit_def try_except_def external_def returns_def raises_def falsy_def
      unique_def dropna_def iter_field_def extract_record_def drug_info_of_def join_sources_def
      get_or_def str_nat.simps)

lemma failing_prediction:
  "prediction failing_env c m d w =
     (Inl (OtherError ''cannot load the model''),
      \<lparr>fs = fs w, logged = logged w @ [(INFO, Log_Rule), (INFO, Log_Step1)],
       calls = calls w @
         [Call_SecondPipeline ([c, m, d] @ model_files (dirname failing_env) @ [''temp'', ''output''])]\<rparr>)"
  by (simp add: prediction_def seq_def andthen_def emit_def external_def failing_fields)

lemma sample_before_prediction:
  "\<exists>W. before_prediction failing_env ''circ.txt'' ''mirna.txt'' ''deg.txt'' sample_world = (Inr (), W)"
  by (simp add: before_prediction_def check_inputs_def validate_input_format_def open_text_def
    sample_world_def sample_files_def failing_env_def sample_env_def
    seq_def andthen_def returns_def raises_def emit_def
    file_lines_def nonblank_stripped_def strip_def isspace_def prefix_violated_def startswith_def
    model_files_def path_join_def path_exists_def reset_folders_def reset_folder_def rmtree_def
    makedirs_def under_def)

theorem stage_exception_policy_witness:
  "network_stage failing_env False staged_world =
     (Inr (),
      \<lparr>fs = fs staged_world,
       logged = [(INFO, Log_Rule), (INFO, Log_Step2_5),
                 (WARNING, Log_NetworkFailed (OtherError ''no graph''))],
       calls = [Call_construct_network]\<rparr>) \<and>
   overlap_stage failing_env False staged_world =
     (Inr [],
      \<lparr>fs = fs staged_world,
       logged = [(WARNING, Log_OverlapFailed (OtherError ''no overlap table''))],
       calls = [Call_extract_overlapping_genes]\<rparr>) \<and>
   fst (prediction failing_env ''circ.txt'' ''mirna.txt'' ''deg.txt'' staged_world) =
     Inl (OtherError ''cannot load the model'') \<and>
   fst (enrichment_stage failing_env staged_world) = Inl (OtherError ''enrichment service down'') \<and>
   fst (ppi_stage failing_env staged_world) = Inl (OtherError ''PPI service down'') \<and>
   fst (drug_gene_stage failing_env staged_world) =
     Inl (TypeError ''sequence item 0: expected str instance, NoneType found'') \<and>
   fst (run_analysis failing_env ''circ.txt'' ''mirna.txt'' ''deg.txt'' False sample_world) = SysExit 1"
proof -
  obtain W where bp:
    "before_prediction failing_env ''circ.txt'' ''mirna.txt'' ''deg.txt'' sample_world = (Inr (), W)"
    using sample_before_prediction by (elim exE)
  have l: "logged staged_world = []" "calls staged_world = []"
    by (simp_all add: staged_world_def)
  note policy = stage_exception_policy
         [of failing_env False staged_world "''circ.txt''" "''mirna.txt''" "''deg.txt''" sample_world]
  note rest1 = policy [THEN conjunct2]
  note rest2 = rest1 [THEN conjunct2]
  note rest3 = rest2 [THEN conjunct2]
  note rest4 = rest3 [THEN conjunct2]
  note rest5 = rest4 [THEN conjunct2]
  note rest6 = rest5 [THEN conjunct2]
  note rest7 = rest6 [THEN conjunct2]
  note rest8 = rest7 [THEN conjunct2]
  have network: "network_stage failing_env False staged_world =
     (Inr (),
      \<lparr>fs = fs staged_world,
       logged = [(INFO, Log_Rule), (INFO, Log_Step2_5),
                 (WARNING, Log_NetworkFailed (OtherError ''no graph''))],
       calls = [Call_construct_network]\<rparr>)"
    using rest1 [THEN conjunct1, rule_format, OF failing_fields(2)] by (simp add: l)
  have overlap: "overlap_stage failing_env False staged_world =
     (Inr [],
      \<lparr>fs = fs staged_world,
       logged = [(WARNING, Log_OverlapFailed (OtherError ''no overlap table''))],
       calls = [Call_extract_overlapping_genes]\<rparr>)"
    using rest3 [THEN conjunct1, rule_format, OF failing_fields(3)] by (simp add: l)
  have predict: "fst (prediction failing_env ''circ.txt'' ''mirna.txt'' ''deg.txt'' staged_world) =
     Inl (OtherError ''cannot load the model'')"
    by (rule rest4 [THEN conjunct1, rule_format, OF failing_fields(1)])
  have enrich: "fst (enrichment_stage failing_env staged_world) =
     Inl (OtherError ''enrichment service down'')"
    by (rule rest5 [THEN conjunct1, rule_format, OF conjI [OF staged_paths(1) failing_fields(4)]])
  have ppi: "fst (ppi_stage failing_env staged_world) = Inl (OtherError ''PPI service down'')"
    by (rule rest6 [THEN conjunct1, rule_format, OF conjI [OF staged_paths(1) failing_fields(5)]])
  have drug: "fst (drug_gene_stage failing_env staged_world) =
     Inl (TypeError ''sequence item 0: expected str instance, NoneType found'')"
    by (rule rest7 [THEN conjunct1, rule_format, OF conjI [OF staged_paths(2) failing_main]])
  have "fst (run_analysis failing_env ''circ.txt'' ''mirna.txt'' ''deg.txt'' False sample_world) =
          SysExit 1"
    using rest8 [THEN conjunct1, rule_format, OF conjI [OF bp failing_prediction]] by simp
  with network overlap predict enrich ppi drug show ?thesis by simp
qed

lemma predict_fails_run:
  "\<exists>W. run_analysis predict_fails_env ''circ.txt'' ''mirna.txt'' ''deg.txt'' False sample_world =
         (SysExit 1, W) \<and>
       logged W =
         [(INFO, Log_Inputs 2 1 2), (INFO, Log_Rule), (INFO, Log_Step1),
          (ERROR, Log_PipelineFailed (OtherError ''prediction failed''))] \<and>
       calls W =
         [Call_SecondPipeline
            [''circ.txt'', ''mirna.txt'', ''deg.txt'',
             ''app/Model_Files/calibrated_catboost_site_type_model.pkl'',
             ''app/Model_Files/label_encoder.pkl'',
             ''app/Model_Files/robust_scaler.pkl'', ''temp'', ''output''],
          Call_process_all_circs]"
  by (simp add: run_analysis_def pipeline_body_def check_inputs_def validate_input_format_def
    open_text_def sample_world_def sample_files_def predict_fails_env_def sample_env_def
    ext_return_def ext_raise_def
    seq_def andthen_def returns_def raises_def emit_def external_def if_do_def
    file_lines_def nonblank_stripped_def strip_def isspace_def prefix_violated_def startswith_def
    model_files_def path_join_def path_exists_def reset_folders_def reset_folder_def rmtree_def
    makedirs_def under_def prediction_def)

text \<open>
  An exception raised by \<open>process_all_circs\<close>, in the prediction stage, is not treated
  as a skip of that stage: the run ends with exit status 1, and no later stage is
  called.
\<close>

theorem prediction_exception_aborts_run:
  "fst (run_analysis predict_fails_env ''circ.txt'' ''mirna.txt'' ''deg.txt'' False sample_world) =
     SysExit 1 \<and>
   logged (snd (run_analysis predict_fails_env ''circ.txt'' ''mirna.txt'' ''deg.txt'' False sample_world)) =
     [(INFO, Log_Inputs 2 1 2), (INFO, Log_Rule), (INFO, Log_Step1),
      (ERROR, Log_PipelineFailed (OtherError ''prediction failed''))] \<and>
   calls (snd (run_analysis predict_fails_env ''circ.txt'' ''mirna.txt'' ''deg.txt'' False sample_world)) =
     [Call_SecondPipeline
        [''circ.txt'', ''mirna.txt'', ''deg.txt'',
         ''app/Model_Files/calibrated_catboost_site_type_model.pkl'',
         ''app/Model_Files/label_encoder.pkl'',
         ''app/Model_Files/robust_scaler.pkl'', ''temp'', ''output''],
      Call_process_all_circs]"
proof -
  obtain W where
    "run_analysis predict_fails_env ''circ.txt'' ''mirna.txt'' ''deg.txt'' False sample_world =
         (SysExit 1, W) \<and>
       logged W =
         [(INFO, Log_Inputs 2 1 2), (INFO, Log_Rule), (INFO, Log_Step1),
          (ERROR, Log_PipelineFailed (OtherError ''prediction failed''))] \<and>
       calls W =
         [Call_SecondPipeline
            [''circ.txt'', ''mirna.txt'', ''deg.txt'',
             ''app/Model_Files/calibrated_catboost_site_type_model.pkl'',
             ''app/Model_Files/label_encoder.pkl'',
             ''app/Model_Files/robust_scaler.pkl'', ''temp'', ''output''],
          Call_process_all_circs]"
    using predict_fails_run by (elim exE)
  then show ?thesis by simp
qed

section \<open>Properties of the table behind the chart\<close>

lemma nunique_card: "nunique vs = card (set vs - {PNone})"
proof -
  have "set (dropna vs) = set vs - {PNone}" by (auto simp: dropna_def)
  then show ?thesis by (simp add: nunique_def length_remdups_card_conv)
qed

lemma fillna_label: "fillna (Interaction_Types r) ''Unknown'' = type_label r"
  by (simp add: fillna_def type_label_def)

lemma stacked_group_drugs:
  "set [d. (g, t, d) \<leftarrow> stacked_df df, (g, t) = k] =
     Drug ` {r \<in> set df. Gene r = fst k \<and> type_label r = snd k}"
  by (cases k) (auto simp: stacked_df_def fillna_label image_iff)

lemma stacked_gene_drugs:
  "set [d. (g, t, d) \<leftarrow> stacked_df df, g = k] = Drug ` {r \<in> set df. Gene r = k}"
  by (auto simp: stacked_df_def image_iff)

lemma stacked_keys:
  "set [(g, t). (g, t, d) \<leftarrow> stacked_df df, g \<noteq> PNone] =
     (\<lambda>r. (Gene r, type_label r)) ` {r \<in> set df. Gene r \<noteq> PNone}"
  by (auto simp: stacked_df_def fillna_label image_iff)

lemma stacked_genes:
  "set [g. (g, t, d) \<leftarrow> stacked_df df, g \<noteq> PNone] = genes_of df"
  by (auto simp: stacked_df_def genes_of_def image_iff)

lemma map_of_tabulate:
  "map_of (map (\<lambda>k. (k, f k)) ks) k = (if k \<in> set ks then Some (f k) else None)"
  by (induction ks) auto

lemma group_nunique:
  "nunique [d. (g, t, d) \<leftarrow> stacked_df df, (g, t) = k] = card (drugs_of df (fst k) (snd k))"
  by (simp only: nunique_card stacked_group_drugs drugs_of_def)

lemma gene_nunique:
  "nunique [d. (g, t, d) \<leftarrow> stacked_df df, g = k] = card (all_drugs_of df k)"
  by (simp only: nunique_card stacked_gene_drugs all_drugs_of_def)

lemma counts_lookup:
  "map_of (gene_interaction_counts (stacked_df df)) (g, t) =
     (if g \<noteq> PNone \<and> (\<exists>r\<in>set df. Gene r = g \<and> type_label r = t)
      then Some (card (drugs_of df g t)) else None)"
proof -
  have k: "(g, t) \<in> (\<lambda>r. (Gene r, type_label r)) ` {r \<in> set df. Gene r \<noteq> PNone} \<longleftrightarrow>
          g \<noteq> PNone \<and> (\<exists>r\<in>set df. Gene r = g \<and> type_label r = t)"
    by auto
  have "map_of (gene_interaction_counts (stacked_df df)) (g, t) =
          (if (g, t) \<in> (\<lambda>r. (Gene r, type_label r)) ` {r \<in> set df. Gene r \<noteq> PNone}
           then Some (card (drugs_of df (fst (g, t)) (snd (g, t)))) else None)"
    by (simp only: gene_interaction_counts_def map_of_tabulate set_unique stacked_keys group_nunique)
  then show ?thesis by (simp only: k fst_conv snd_conv)
qed

lemma drugs_of_empty:
  "\<not> (\<exists>r\<in>set df. Gene r = g \<and> type_label r = t) \<Longrightarrow> drugs_of df g t = {}"
  by (auto simp: drugs_of_def)

lemma cell_pivot:
  assumes "g \<noteq> PNone"
  shows "cell (pivot_of (gene_interaction_counts (stacked_df df))) g t = card (drugs_of df g t)"
  using assms by (simp add: cell_def pivot_of_def counts_lookup drugs_of_empty)

lemma map_of_filter_key:
  "map_of (filter (\<lambda>e. P (fst e)) xs) k = (if P k then map_of xs k else None)"
  by (induction xs) auto

lemma cell_restrict:
  "g \<in> set keep \<Longrightarrow> cell (restrict_rows p keep) g t = cell p g t"
proof -
  assume g: "g \<in> set keep"
  have "map_of (filter (\<lambda>e. fst (fst e) \<in> set keep) (p_cells p)) (g, t) = map_of (p_cells p) (g, t)"
    using map_of_filter_key [of "\<lambda>k. fst k \<in> set keep" "p_cells p" "(g, t)"] g by simp
  then show ?thesis by (simp add: cell_def restrict_rows_def)
qed

lemma counts_keys:
  "map fst (gene_interaction_counts stacked) = unique [(g, t). (g, t, d) \<leftarrow> stacked, g \<noteq> PNone]"
  by (simp add: gene_interaction_counts_def comp_def)

lemma pivot_index:
  "set (p_index (pivot_of (gene_interaction_counts (stacked_df df)))) = genes_of df"
proof -
  have "(\<lambda>e. fst (fst e)) ` set (gene_interaction_counts (stacked_df df)) =
          fst ` set (map fst (gene_interaction_counts (stacked_df df)))"
    by (simp add: image_image)
  also have "\<dots> = fst ` (\<lambda>r. (Gene r, type_label r)) ` {r \<in> set df. Gene r \<noteq> PNone}"
    by (simp only: counts_keys set_unique stacked_keys)
  also have "\<dots> = genes_of df"
    by (auto simp: genes_of_def image_iff)
  finally show ?thesis by (simp add: pivot_of_def set_unique)
qed

lemma pivot_columns:
  "set (p_columns (pivot_of (gene_interaction_counts (stacked_df df)))) =
     type_label ` {r \<in> set df. Gene r \<noteq> PNone}"
proof -
  have "(\<lambda>e. snd (fst e)) ` set (gene_interaction_counts (stacked_df df)) =
          snd ` set (map fst (gene_interaction_counts (stacked_df df)))"
    by (simp add: image_image)
  also have "\<dots> = snd ` (\<lambda>r. (Gene r, type_label r)) ` {r \<in> set df. Gene r \<noteq> PNone}"
    by (simp only: counts_keys set_unique stacked_keys)
  also have "\<dots> = type_label ` {r \<in> set df. Gene r \<noteq> PNone}"
    by (auto simp: image_iff)
  finally show ?thesis by (simp add: pivot_of_def set_unique)
qed

lemma drugs_per_gene_keys:
  "map fst (drugs_per_gene (stacked_df df)) = unique [g. (g, t, d) \<leftarrow> stacked_df df, g \<noteq> PNone]"
  by (simp add: drugs_per_gene_def comp_def)

lemma drugs_per_gene_entry:
  assumes "(g, c) \<in> set (drugs_per_gene (stacked_df df))"
  shows "c = card (all_drugs_of df g)"
proof -
  from assms obtain k where
    "(g, c) = (k, nunique [d. (g, t, d) \<leftarrow> stacked_df df, g = k])"
    unfolding drugs_per_gene_def by (auto simp only: set_map image_iff)
  then show ?thesis by (simp only: gene_nunique prod.inject)
qed

lemma length_drugs_per_gene:
  "length (drugs_per_gene (stacked_df df)) = card (genes_of df)"
proof -
  have "length (drugs_per_gene (stacked_df df)) = length (map fst (drugs_per_gene (stacked_df df)))"
    by simp
  also have "\<dots> = card (set (unique [g. (g, t, d) \<leftarrow> stacked_df df, g \<noteq> PNone]))"
    by (simp only: drugs_per_gene_keys distinct_card [OF distinct_unique])
  also have "\<dots> = card (genes_of df)"
    by (simp only: set_unique stacked_genes)
  finally show ?thesis .
qed

lemma top_genes_facts:
  assumes "sorts_descending srt"
  shows "distinct (top_genes srt n (stacked_df df))"
    and "set (top_genes srt n (stacked_df df)) \<subseteq> genes_of df"
    and "length (top_genes srt n (stacked_df df)) = min n (card (genes_of df))"
    and "\<And>g h. g \<in> set (top_genes srt n (stacked_df df)) \<Longrightarrow> h \<in> genes_of df \<Longrightarrow>
           h \<notin> set (top_genes srt n (stacked_df df)) \<Longrightarrow>
           card (all_drugs_of df h) \<le> card (all_drugs_of df g)"
proof -
  define D where "D = drugs_per_gene (stacked_df df)"
  define L where "L = srt D"
  have perm: "mset L = mset D" and srt: "sorted_wrt (\<lambda>a b. snd b \<le> snd a) L"
    using assms by (simp_all add: sorts_descending_def L_def)
  have top: "top_genes srt n (stacked_df df) = map fst (take n L)"
    by (simp add: top_genes_def L_def D_def)
  have setL: "set L = set D" using perm by (rule mset_eq_setD)
  have dD: "distinct (map fst D)"
    by (simp only: D_def drugs_per_gene_keys distinct_unique)
  have "mset (map fst L) = mset (map fst D)" using perm by (metis mset_map)
  then have dL: "distinct (map fst L)" using dD by (metis mset_eq_imp_distinct_iff)
  have keys: "fst ` set D = genes_of df"
  proof -
    have "fst ` set D = set (map fst D)" by simp
    also have "\<dots> = genes_of df"
      by (simp only: D_def drugs_per_gene_keys set_unique stacked_genes)
    finally show ?thesis .
  qed
  have "length L = length D" using perm by (rule mset_eq_length)
  then have lenL: "length L = card (genes_of df)"
    by (simp add: D_def length_drugs_per_gene)
  show "distinct (top_genes srt n (stacked_df df))"
    using dL by (simp add: top take_map [symmetric] distinct_take)
  show "set (top_genes srt n (stacked_df df)) \<subseteq> genes_of df"
  proof
    fix g assume "g \<in> set (top_genes srt n (stacked_df df))"
    then have "g \<in> fst ` set (take n L)" by (simp add: top)
    then have "g \<in> fst ` set L" using set_take_subset [of n L] by blast
    then show "g \<in> genes_of df" by (simp add: setL keys)
  qed
  show "length (top_genes srt n (stacked_df df)) = min n (card (genes_of df))"
    by (simp add: top lenL min.commute)
  fix g h
  assume g: "g \<in> set (top_genes srt n (stacked_df df))"
    and h: "h \<in> genes_of df"
    and nh: "h \<notin> set (top_genes srt n (stacked_df df))"
  from g obtain cg where a: "(g, cg) \<in> set (take n L)" by (auto simp: top)
  from h have "h \<in> fst ` set L" by (simp only: setL keys)
  then obtain ch where hL: "(h, ch) \<in> set L" by auto
  have "(h, ch) \<notin> set (take n L)"
  proof
    assume "(h, ch) \<in> set (take n L)"
    then have "h \<in> fst ` set (take n L)" by force
    with nh show False by (simp add: top)
  qed
  moreover have "set L = set (take n L) \<union> set (drop n L)"
    by (metis append_take_drop_id set_append)
  ultimately have b: "(h, ch) \<in> set (drop n L)" using hL by blast
  have "sorted_wrt (\<lambda>a b. snd b \<le> snd a) (take n L @ drop n L)" using srt by simp
  then have "\<forall>x\<in>set (take n L). \<forall>y\<in>set (drop n L). snd y \<le> snd x"
    by (simp only: sorted_wrt_append) blast
  with a b have le: "ch \<le> cg" by fastforce
  from a have "(g, cg) \<in> set L" by (rule in_set_takeD)
  then have "cg = card (all_drugs_of df g)"
    unfolding setL D_def by (rule drugs_per_gene_entry)
  moreover from hL have "ch = card (all_drugs_of df h)"
    unfolding setL D_def by (rule drugs_per_gene_entry)
  ultimately show "card (all_drugs_of df h) \<le> card (all_drugs_of df g)" using le by simp
qed

lemma bar_table_index:
  assumes "sorts_descending srt"
  shows "set (p_index (bar_table srt n df)) = set (top_genes srt n (stacked_df df))"
    and "distinct (p_index (bar_table srt n df))"
proof -
  let ?P = "pivot_of (gene_interaction_counts (stacked_df df))"
  let ?top = "top_genes srt n (stacked_df df)"
  have idx: "p_index (bar_table srt n df) = filter (\<lambda>g. g \<in> set ?top) (p_index ?P)"
    by (simp add: bar_table_def restrict_rows_def Let_def)
  have "set ?top \<subseteq> set (p_index ?P)"
    using top_genes_facts(2) [OF assms] by (simp only: pivot_index)
  then show "set (p_index (bar_table srt n df)) = set ?top"
    unfolding idx by auto
  have "distinct (p_index ?P)" by (simp add: pivot_of_def distinct_unique)
  then show "distinct (p_index (bar_table srt n df))" unfolding idx by simp
qed

text \<open>
  Claim C6. The table that is plotted is computed from the flattened table as follows.
  A record without interaction type is counted under the label \<open>Unknown\<close>. The cell of
  a gene and an interaction type holds the number of distinct drugs of the records with
  that gene and that type. The rows are those of the top \<open>n\<close> genes by number of
  distinct drugs: there are \<open>n\<close> of them (all genes when there are fewer), and no gene
  left out has more distinct drugs than a gene kept. \<open>draw_stacked_bar\<close> plots the table
  for \<open>n = 15\<close>. The sort is any function that returns its input sorted by descending
  count.
\<close>

theorem bar_table_top_genes:
  assumes "sorts_descending srt"
  shows "distinct (p_index (bar_table srt n df)) \<and>
         set (p_index (bar_table srt n df)) \<subseteq> genes_of df \<and>
         length (p_index (bar_table srt n df)) = min n (card (genes_of df)) \<and>
         (\<forall>g\<in>set (p_index (bar_table srt n df)).
            \<forall>h\<in>genes_of df - set (p_index (bar_table srt n df)).
              card (all_drugs_of df h) \<le> card (all_drugs_of df g)) \<and>
         (\<forall>g\<in>set (p_index (bar_table srt n df)).
            \<forall>t. cell (bar_table srt n df) g t = card (drugs_of df g t)) \<and>
         set (p_columns (bar_table srt n df)) = type_label ` {r \<in> set df. Gene r \<noteq> PNone} \<and>
         draw_stacked_bar env OUTPUT_BAR df =
           seq (external (Call_savefig OUTPUT_BAR)
                  (savefig env (bar_table (sort_values env) 15 df) OUTPUT_BAR))
               (emit INFO (Log_BarSaved OUTPUT_BAR))"
proof -
  let ?T = "bar_table srt n df"
  let ?top = "top_genes srt n (stacked_df df)"
  note idx = bar_table_index [OF assms, where n = n and df = df]
  note top = top_genes_facts [OF assms, where n = n and df = df]
  have d: "distinct (p_index ?T)" by (rule idx(2))
  have sub: "set (p_index ?T) \<subseteq> genes_of df" using top(2) by (simp only: idx(1))
  have "length (p_index ?T) = card (set (p_index ?T))" using d by (simp add: distinct_card)
  also have "\<dots> = card (set ?top)" by (simp only: idx(1))
  also have "\<dots> = length ?top" using top(1) by (simp add: distinct_card)
  finally have len: "length (p_index ?T) = min n (card (genes_of df))" by (simp only: top(3))
  have rank: "\<forall>g\<in>set (p_index ?T). \<forall>h\<in>genes_of df - set (p_index ?T).
                card (all_drugs_of df h) \<le> card (all_drugs_of df g)"
    unfolding idx(1) using top(4) by blast
  have cells: "\<forall>g\<in>set (p_index ?T). \<forall>t. cell ?T g t = card (drugs_of df g t)"
  proof (intro ballI allI)
    fix g t assume g: "g \<in> set (p_index ?T)"
    then have gt: "g \<in> set ?top" by (simp only: idx(1))
    from g sub have "g \<noteq> PNone" by (auto simp: genes_of_def)
    then have "cell (pivot_of (gene_interaction_counts (stacked_df df))) g t = card (drugs_of df g t)"
      by (rule cell_pivot)
    moreover have "cell ?T g t = cell (pivot_of (gene_interaction_counts (stacked_df df))) g t"
      unfolding bar_table_def Let_def using gt by (rule cell_restrict)
    ultimately show "cell ?T g t = card (drugs_of df g t)" by simp
  qed
  have cols: "set (p_columns ?T) = type_label ` {r \<in> set df. Gene r \<noteq> PNone}"
    using pivot_columns [of df] by (simp add: bar_table_def restrict_rows_def Let_def)
  have draw: "draw_stacked_bar env OUTPUT_BAR df =
           seq (external (Call_savefig OUTPUT_BAR)
                  (savefig env (bar_table (sort_values env) 15 df) OUTPUT_BAR))
               (emit INFO (Log_BarSaved OUTPUT_BAR))"
    by (simp add: draw_stacked_bar_def TOP_GENES_def Let_def)
  from d sub len rank cells cols draw show ?thesis by blast
qed

lemma sample_sort_values: "sort_values sample_env = (\<lambda>counts. rev (sort_key snd counts))"
  by (simp add: sample_env_def)

lemma sample_sorts_descending: "sorts_descending (sort_values sample_env)"
proof -
  have "sorted_wrt (\<lambda>a b. snd b \<le> snd a) (rev (sort_key snd xs))" for xs :: "(pyval \<times> nat) list"
  proof -
    have "sorted (map snd (sort_key snd xs))" by (rule sorted_sort_key)
    then have "sorted_wrt (\<lambda>a b. snd a \<le> snd b) (sort_key snd xs)"
      by (simp only: sorted_map)
    then show ?thesis by (simp only: sorted_wrt_rev)
  qed
  then show ?thesis by (simp add: sorts_descending_def sample_sort_values)
qed

lemma sample_bar_table:
  "bar_table (sort_values sample_env) 1 sample_table =
     \<lparr>p_index = [PStr ''TP53''],
      p_columns = [''inhibitor (INHIBITORY); binder (None)'', ''Unknown''],
      p_cells = [((PStr ''TP53'', ''inhibitor (INHIBITORY); binder (None)''), 1),
                 ((PStr ''TP53'', ''Unknown''), 1)]\<rparr>"
  by (simp add: sample_sort_values bar_table_def stacked_df_def sample_table_def fillna_def
      gene_interaction_counts_def drugs_per_gene_def top_genes_def pivot_of_def restrict_rows_def
      unique_def nunique_def dropna_def)

theorem bar_table_top_genes_witness:
  "sorts_descending (sort_values sample_env) \<and>
   p_index (bar_table (sort_values sample_env) 1 sample_table) = [PStr ''TP53''] \<and>
   cell (bar_table (sort_values sample_env) 1 sample_table) (PStr ''TP53'') ''Unknown'' = 1 \<and>
   card (drugs_of sample_table (PStr ''TP53'') ''Unknown'') = 1 \<and>
   min 1 (card (genes_of sample_table)) = 1"
proof -
  note T = bar_table_top_genes
    [OF sample_sorts_descending, where n = 1 and df = sample_table and env = sample_env
       and OUTPUT_BAR = "''bar.png''"]
  have idx: "p_index (bar_table (sort_values sample_env) 1 sample_table) = [PStr ''TP53'']"
    unfolding sample_bar_table by simp
  have c: "cell (bar_table (sort_values sample_env) 1 sample_table) (PStr ''TP53'') ''Unknown'' = 1"
    unfolding sample_bar_table by (simp add: cell_def)
  have "length (p_index (bar_table (sort_values sample_env) 1 sample_table)) =
                 min 1 (card (genes_of sample_table))"
    by (rule T [THEN conjunct2, THEN conjunct2, THEN conjunct1])
  then have m: "min 1 (card (genes_of sample_table)) = 1" unfolding idx by simp
  have "\<forall>g\<in>set (p_index (bar_table (sort_values sample_env) 1 sample_table)).
            \<forall>t. cell (bar_table (sort_values sample_env) 1 sample_table) g t =
                 card (drugs_of sample_table g t)"
    by (rule T [THEN conjunct2, THEN conjunct2, THEN conjunct2, THEN conjunct2, THEN conjunct1])
  then have "cell (bar_table (sort_values sample_env) 1 sample_table) (PStr ''TP53'') ''Unknown'' =
               card (drugs_of sample_table (PStr ''TP53'') ''Unknown'')"
    unfolding idx by simp
  with c have "card (drugs_of sample_table (PStr ''TP53'') ''Unknown'') = 1" by simp
  with sample_sorts_descending idx c m show ?thesis by simp
qed

end
